theory Spec2Isabelle
  imports Complex_Main "HOL-Library.AList" "HOL-Library.Log_Nat"
begin

section \<open>JavaScript values used by the fetch-and-extract pipeline\<close>

text \<open>
  The pipeline lives in two files: the controller (\<^verbatim>\<open>executeRequest\<close>,
  \<^verbatim>\<open>executeWithRetry\<close>) and the helpers (\<^verbatim>\<open>calculateBackoffDelay\<close>,
  \<^verbatim>\<open>extractMetadata\<close> with its \<^verbatim>\<open>scoreCandidate\<close>, \<^verbatim>\<open>resolveUrl\<close>,
  \<^verbatim>\<open>mergeMetadata\<close>, ...).

  Strings are lists of 8-bit characters. \<^verbatim>\<open>toLowerCase\<close> and \<^verbatim>\<open>toUpperCase\<close> map the
  ASCII letters and leave every other character alone, which is what JavaScript does on
  ASCII text; the case mappings of characters beyond ASCII are outside this model.
  A value that may be \<^verbatim>\<open>null\<close> or \<^verbatim>\<open>undefined\<close> is an \<open>option\<close>; JavaScript numbers
  that the code divides or multiplies by fractions are exact reals (IEEE rounding is not
  modelled).
\<close>

definition lowerChar :: "char \<Rightarrow> char" where
  "lowerChar c =
     (case map_of (zip ''ABCDEFGHIJKLMNOPQRSTUVWXYZ'' ''abcdefghijklmnopqrstuvwxyz'') c of
        Some d \<Rightarrow> d | None \<Rightarrow> c)"

definition upperChar :: "char \<Rightarrow> char" where
  "upperChar c =
     (case map_of (zip ''abcdefghijklmnopqrstuvwxyz'' ''ABCDEFGHIJKLMNOPQRSTUVWXYZ'') c of
        Some d \<Rightarrow> d | None \<Rightarrow> c)"

definition toLowerCase :: "string \<Rightarrow> string" where
  "toLowerCase s = map lowerChar s"

definition toUpperCase :: "string \<Rightarrow> string" where
  "toUpperCase s = map upperChar s"

fun startsWith :: "string \<Rightarrow> string \<Rightarrow> bool" where
  "startsWith s [] = True"
| "startsWith [] (p # ps) = False"
| "startsWith (c # cs) (p # ps) = (c = p \<and> startsWith cs ps)"

text \<open>\<^verbatim>\<open>s.includes(sub)\<close>: \<open>sub\<close> occurs in \<open>s\<close> as a contiguous substring.\<close>

fun str_includes :: "string \<Rightarrow> string \<Rightarrow> bool" where
  "str_includes [] sub = (sub = [])"
| "str_includes (c # cs) sub = (startsWith (c # cs) sub \<or> str_includes cs sub)"

definition endsWith :: "string \<Rightarrow> string \<Rightarrow> bool" where
  "endsWith s suffix = startsWith (rev s) (rev suffix)"

text \<open>
  Truthiness of a value that is a string, \<^verbatim>\<open>null\<close> or \<^verbatim>\<open>undefined\<close>: only a non-empty
  string is truthy. \<open>js_or a b\<close> is \<^verbatim>\<open>a || b\<close> on such values, \<open>js_nullish a b\<close> is
  \<^verbatim>\<open>a ?? b\<close>, and \<open>str_or_empty a\<close> is \<^verbatim>\<open>String(a || '')\<close>.
\<close>

definition truthy :: "string option \<Rightarrow> bool" where
  "truthy v = (case v of None \<Rightarrow> False | Some s \<Rightarrow> s \<noteq> [])"

definition js_or :: "string option \<Rightarrow> string option \<Rightarrow> string option" where
  "js_or a b = (if truthy a then a else b)"

definition js_nullish :: "'a option \<Rightarrow> 'a option \<Rightarrow> 'a option" where
  "js_nullish a b = (case a of None \<Rightarrow> b | Some v \<Rightarrow> Some v)"

definition str_or_empty :: "string option \<Rightarrow> string" where
  "str_or_empty a = (case a of None \<Rightarrow> [] | Some s \<Rightarrow> s)"

section \<open>Scoring of image candidates\<close>

text \<open>
  \<^verbatim>\<open>scoreCandidate\<close> is a closure inside \<^verbatim>\<open>extractMetadata\<close>. A candidate is
  \<^verbatim>\<open>{ url, source, w, h }\<close>; the source tag is one of nine strings, \<open>w\<close> and \<open>h\<close> are
  the integers \<^verbatim>\<open>parseInt(...) || 0\<close> that \<^verbatim>\<open>pushCandidate\<close> received (default 0).
  Each statement \<^verbatim>\<open>if (cond) s += k\<close> of the source is the step
  \<open>s = s + (if cond then k else 0)\<close> here.
\<close>

datatype source = Meta | Jsonld | Link | Srcset | Img | ImgMap | Poster | Background | Script

record candidate =
  c_url :: string
  c_source :: source
  c_w :: int
  c_h :: int

definition isDigit :: "char \<Rightarrow> bool" where
  "isDigit c = (c \<in> set ''0123456789'')"

text \<open>A word character of a regular expression, \<^verbatim>\<open>[A-Za-z0-9_]\<close>.\<close>

definition isWordChar :: "char \<Rightarrow> bool" where
  "isWordChar c =
     (c \<in> set ''abcdefghijklmnopqrstuvwxyzABCDEFGHIJKLMNOPQRSTUVWXYZ0123456789_'')"

definition digitValue :: "char \<Rightarrow> nat" where
  "digitValue c =
     (case map_of (zip ''0123456789'' [0, 1, 2, 3, 4, 5, 6, 7, 8, 9]) c of
        Some n \<Rightarrow> n | None \<Rightarrow> 0)"

text \<open>\<^verbatim>\<open>parseInt(ds, 10)\<close> on a string of decimal digits.\<close>

definition parseInt :: "string \<Rightarrow> nat" where
  "parseInt ds = foldl (\<lambda>n c. 10 * n + digitValue c) 0 ds"

text \<open>
  The capture of \<^verbatim>\<open>/[?&](?:n1|n2|...)=(\d+)/\<close> after the \<^verbatim>\<open>?\<close> or \<^verbatim>\<open>&\<close>: the first
  name followed by \<^verbatim>\<open>=\<close> and at least one digit gives the maximal run of digits.
\<close>

fun paramDigits :: "string list \<Rightarrow> string \<Rightarrow> string option" where
  "paramDigits [] rest = None"
| "paramDigits (name # names) rest =
     (if startsWith rest (name @ ''='')
         \<and> takeWhile isDigit (drop (length name + 1) rest) \<noteq> []
      then Some (takeWhile isDigit (drop (length name + 1) rest))
      else paramDigits names rest)"

text \<open>\<^verbatim>\<open>u.match(/[?&](?:n1|n2|...)=(\d+)/)\<close>: the capture of the leftmost match.\<close>

fun matchParam :: "string list \<Rightarrow> string \<Rightarrow> string option" where
  "matchParam names [] = None"
| "matchParam names (c # cs) =
     (if c = CHR ''?'' \<or> c = CHR ''&'' then
        (case paramDigits names cs of
           Some ds \<Rightarrow> Some ds
         | None \<Rightarrow> matchParam names cs)
      else matchParam names cs)"

text \<open>
  \<^verbatim>\<open>u.match(/(\d{3,})w\b/)\<close>: the leftmost run of at least three digits that is
  followed by \<^verbatim>\<open>w\<close> and a word boundary. A match that starts at a digit takes the whole
  run of digits from there, since a shorter one is followed by a digit and not by \<^verbatim>\<open>w\<close>.
\<close>

fun matchWidthSuffix :: "string \<Rightarrow> string option" where
  "matchWidthSuffix [] = None"
| "matchWidthSuffix (c # cs) =
     (let ds = takeWhile isDigit (c # cs);
          rest = dropWhile isDigit (c # cs)
      in if 3 \<le> length ds
            \<and> (case rest of
                  [] \<Rightarrow> False
                | x # xs \<Rightarrow> x = CHR ''w'' \<and> (case xs of [] \<Rightarrow> True | y # _ \<Rightarrow> \<not> isWordChar y))
         then Some ds
         else matchWidthSuffix cs)"

definition widthHint :: "string \<Rightarrow> string option" where
  "widthHint u =
     (case matchParam [''w'', ''width''] u of
        Some ds \<Rightarrow> Some ds
      | None \<Rightarrow> matchWidthSuffix u)"

definition heightHint :: "string \<Rightarrow> string option" where
  "heightHint u = matchParam [''h'', ''height''] u"

definition scoreCandidate :: "candidate \<Rightarrow> real" where
  "scoreCandidate c =
     (let s = 0;
          u = toLowerCase (c_url c);
          s = s + (if c_source c = Meta then 100 else 0);
          s = s + (if c_source c = Jsonld then 90 else 0);
          s = s + (if c_source c = Srcset then 70 else 0);
          s = s + (if c_source c = ImgMap then 65 else 0);
          s = s + (if c_source c = Img then 60 else 0);
          s = s + (if c_source c = Poster then 50 else 0);
          s = s + (if c_source c = Link then 45 else 0);
          s = s + (if c_source c = Background then 40 else 0);
          s = s + (if c_source c = Script then 30 else 0);
          s = s + (if c_w c \<noteq> 0 then real_of_int (min (c_w c) 1600) / 10 else 0);
          s = s + (if c_h c \<noteq> 0 then real_of_int (min (c_h c) 1600) / 10 else 0);
          s = s - (if str_includes u ''favicon'' \<or> str_includes u ''sprite'' then 80 else 0);
          s = s - (if str_includes u ''logo'' then 40 else 0);
          s = s - (if endsWith u ''.svg'' then 30 else 0);
          wm = widthHint u;
          s = s + (case wm of Some ds \<Rightarrow> real (parseInt ds) / 10 | None \<Rightarrow> 0);
          hm = heightHint u;
          s = s + (case hm of Some ds \<Rightarrow> real (parseInt ds) / 10 | None \<Rightarrow> 0)
      in s)"

definition sourceScore :: "source \<Rightarrow> real" where
  "sourceScore src =
     (case src of Meta \<Rightarrow> 100 | Jsonld \<Rightarrow> 90 | Srcset \<Rightarrow> 70 | ImgMap \<Rightarrow> 65 | Img \<Rightarrow> 60
      | Poster \<Rightarrow> 50 | Link \<Rightarrow> 45 | Background \<Rightarrow> 40 | Script \<Rightarrow> 30)"

definition urlPenalty :: "string \<Rightarrow> real" where
  "urlPenalty u =
     (if str_includes u ''favicon'' \<or> str_includes u ''sprite'' then 80 else 0)
     + (if str_includes u ''logo'' then 40 else 0)
     + (if endsWith u ''.svg'' then 30 else 0)"

text \<open>
  The size-derived part of a score is the score minus the score of the same candidate
  without its size information: with \<open>w = h = 0\<close> and with every digit of the URL replaced
  by \<^verbatim>\<open>#\<close>, which leaves no width or height to read from the URL and does not change
  whether the URL contains \<^verbatim>\<open>favicon\<close>, \<^verbatim>\<open>sprite\<close> or \<^verbatim>\<open>logo\<close> or ends in \<^verbatim>\<open>.svg\<close>. The
  part that the explicit \<open>w\<close> and \<open>h\<close> add is the score minus the score with \<open>w = h = 0\<close>.
\<close>

definition maskDigit :: "char \<Rightarrow> char" where
  "maskDigit c = (if isDigit c then CHR ''#'' else c)"

definition sizeless :: "candidate \<Rightarrow> candidate" where
  "sizeless c = c\<lparr>c_url := map maskDigit (c_url c), c_w := 0, c_h := 0\<rparr>"


definition sizeBonus :: "candidate \<Rightarrow> real" where
  "sizeBonus c = scoreCandidate c - scoreCandidate (sizeless c)"


section \<open>Backoff delay\<close>

text \<open>
  JavaScript numbers are IEEE-754 binary64 values, and each arithmetic operation returns
  the representable value nearest to the exact result, ties going to the even
  significand. \<open>fl x\<close> is that value for a real \<open>x\<close>: the multiple of the quantum of \<open>x\<close>
  nearest to \<open>x\<close>, where the quantum is \<open>2\<close> to the power \<open>e - 52\<close> for \<open>x\<close> in the binade
  \<open>[2 ^ e, 2 ^ (e + 1))\<close>, and never below \<open>2\<close> to the power \<open>-1074\<close>. Overflow to
  infinity (from \<open>2 ^ 1024\<close> on) is not part of \<open>fl\<close>; the values rounded below are less
  than \<open>2 ^ 14\<close>.
\<close>

definition pow2 :: "int \<Rightarrow> real" where
  "pow2 e = (if 0 \<le> e then 2 ^ nat e else 1 / 2 ^ nat (- e))"

definition roundHalfEven :: "real \<Rightarrow> int" where
  "roundHalfEven t =
     (let f = \<lfloor>t\<rfloor>;
          d = t - of_int f
      in if d < 1 / 2 then f
         else if 1 / 2 < d then f + 1
         else if even f then f else f + 1)"

text \<open>For \<open>x > 0\<close>: the \<open>e\<close> with \<open>2 ^ e \<le> x < 2 ^ (e + 1)\<close>.\<close>

definition binade :: "real \<Rightarrow> int" where
  "binade x =
     (if 1 \<le> x then int (floorlog 2 (nat \<lfloor>x\<rfloor>)) - 1
      else - int (floorlog 2 (nat \<lceil>1 / x\<rceil> - 1)))"

definition quantum :: "real \<Rightarrow> int" where
  "quantum x = max (- 1074) (binade \<bar>x\<bar> - 52)"

definition fl :: "real \<Rightarrow> real" where
  "fl x =
     (if x = 0 then 0
      else of_int (roundHalfEven (x / pow2 (quantum x))) * pow2 (quantum x))"

text \<open>
  \<^verbatim>\<open>calculateBackoffDelay(attempt)\<close> of the helpers. The second argument \<open>jitter\<close> is the
  value that \<^verbatim>\<open>Math.random()\<close> returned inside the call. \<^verbatim>\<open>baseDelay * Math.pow(2, attempt)\<close>
  is exact as long as it is finite and is \<^verbatim>\<open>Infinity\<close> beyond, so that its minimum with
  \<^verbatim>\<open>maxDelay\<close> is the exact \<open>min (1000 * 2 ^ attempt) 10000\<close> for every \<open>attempt\<close>; the
  product with the jitter and the final sum are rounded.
\<close>

definition calculateBackoffDelay :: "nat \<Rightarrow> real \<Rightarrow> real" where
  "calculateBackoffDelay attempt jitter =
     (let baseDelay = 1000;
          maxDelay = 10000;
          delay = min (baseDelay * 2 ^ attempt) maxDelay
      in fl (delay + fl (jitter * 1000)))"

section \<open>The URL class of the runtime\<close>

text \<open>
  \<^verbatim>\<open>new URL(s)\<close> and \<^verbatim>\<open>new URL(s, base)\<close> belong to the JavaScript runtime, not to the
  repository. They are parameters of the model: each gives the parsed URL (the fields
  the code reads), or \<open>None\<close> where the constructor throws.
\<close>

record URL =
  protocol :: string
  hostname :: string
  pathname :: string
  href :: string

record runtime =
  newURL :: "string \<Rightarrow> URL option"
  newURL2 :: "string \<Rightarrow> string \<Rightarrow> URL option"

section \<open>Resolving URLs\<close>

text \<open>
  \<^verbatim>\<open>resolveUrl(url, baseUrl)\<close> of the helpers; \<open>None\<close> is its \<^verbatim>\<open>null\<close>. An exception
  of the URL constructor is caught inside the function and gives \<^verbatim>\<open>null\<close>.
\<close>

definition resolveUrl :: "'a runtime_scheme \<Rightarrow> string \<Rightarrow> string \<Rightarrow> string option" where
  "resolveUrl R url baseUrl =
     (if url = [] then None
      else if startsWith url ''http://'' \<or> startsWith url ''https://'' then Some url
      else if startsWith url ''//'' then
        (case newURL R baseUrl of
           None \<Rightarrow> None
         | Some baseUrlObj \<Rightarrow> Some (protocol baseUrlObj @ url))
      else
        (case newURL2 R url baseUrl of
           None \<Rightarrow> None
         | Some resolved \<Rightarrow> Some (href resolved)))"

text \<open>
  What Node's URL class answers on the two calls below: \<^verbatim>\<open>new URL('ftp://h/')\<close> has
  protocol \<^verbatim>\<open>ftp:\<close>, and \<^verbatim>\<open>new URL('ftp://H/a', 'ftp://h/').href\<close> is
  \<^verbatim>\<open>ftp://h/a\<close> (the host of a special scheme is lower-cased). Every other call is left
  failing; the example uses no other.
\<close>

definition ftpSample :: runtime where
  "ftpSample =
     \<lparr>newURL = (\<lambda>s. if s = ''ftp://h/''
                     then Some \<lparr>protocol = ''ftp:'', hostname = ''h'', pathname = ''/'',
                                href = ''ftp://h/''\<rparr>
                     else None),
      newURL2 = (\<lambda>s b. if s = ''ftp://H/a'' \<and> b = ''ftp://h/''
                        then Some \<lparr>protocol = ''ftp:'', hostname = ''h'', pathname = ''/a'',
                                   href = ''ftp://h/a''\<rparr>
                        else None)\<rparr>"

text \<open>
  What Node's URL class answers for the base \<^verbatim>\<open>https://h/p\<close>: a relative path is
  resolved against the base, the scheme of \<^verbatim>\<open>MAILTO:a@h\<close> is lower-cased, and each of
  the two results parses to itself. Every other call is left failing; the example uses
  no other.
\<close>

definition httpSample :: runtime where
  "httpSample =
     \<lparr>newURL = (\<lambda>s. if s = ''https://h/p''
                     then Some \<lparr>protocol = ''https:'', hostname = ''h'', pathname = ''/p'',
                                href = ''https://h/p''\<rparr>
                     else None),
      newURL2 = (\<lambda>s b. if b = ''https://h/p'' \<and> (s = ''img/a.png'' \<or> s = ''https://h/img/a.png'')
                        then Some \<lparr>protocol = ''https:'', hostname = ''h'',
                                   pathname = ''/img/a.png'', href = ''https://h/img/a.png''\<rparr>
                        else if b = ''https://h/p'' \<and> (s = ''MAILTO:a@h'' \<or> s = ''mailto:a@h'')
                        then Some \<lparr>protocol = ''mailto:'', hostname = [], pathname = ''a@h'',
                                   href = ''mailto:a@h''\<rparr>
                        else None)\<rparr>"

section \<open>Metadata records and the platform merge\<close>

text \<open>
  The metadata object \<^verbatim>\<open>{ title, description, images: { logo, ogImage, favicon,
  appleTouchIcon } }\<close>; every leaf is a string or \<^verbatim>\<open>null\<close>.
\<close>

record images =
  logo :: "string option"
  ogImage :: "string option"
  favicon :: "string option"
  appleTouchIcon :: "string option"

record metadata =
  title :: "string option"
  description :: "string option"
  images :: images

definition isYouTubeUrl :: "string \<Rightarrow> bool" where
  "isYouTubeUrl url =
     (if url = [] then False
      else (let u = toLowerCase url
            in str_includes u ''youtube.com'' \<or> str_includes u ''youtu.be''))"

definition isSpotifyUrl :: "string \<Rightarrow> bool" where
  "isSpotifyUrl url =
     (if url = [] then False
      else (let u = toLowerCase url in str_includes u ''spotify.com''))"

text \<open>\<^verbatim>\<open>needsPlatformFallback(url, metadata)\<close>; \<open>None\<close> is a missing metadata object.\<close>

definition needsPlatformFallback :: "string \<Rightarrow> metadata option \<Rightarrow> bool" where
  "needsPlatformFallback url metadata =
     (case metadata of
        None \<Rightarrow> True
      | Some m \<Rightarrow>
          (let title = toLowerCase (str_or_empty (title m));
               description = toLowerCase (str_or_empty (description m))
           in if isYouTubeUrl url then
                (let isGenericTitle = (title = ''- youtube'' \<or> title = ''youtube'');
                     isGenericDesc = str_includes description ''enjoy the videos and music you love'';
                     missingImage = \<not> truthy (ogImage (images m))
                 in isGenericTitle \<or> isGenericDesc \<or> missingImage)
              else if isSpotifyUrl url then
                (let isGenericTitle =
                       (str_includes title ''spotify'' \<and> str_includes title ''web player'');
                     missingImage = \<not> truthy (ogImage (images m))
                 in isGenericTitle \<or> missingImage)
              else False))"

text \<open>
  One round of the loop \<^verbatim>\<open>for (const key of [...])\<close> that fills a missing image:
  \<^verbatim>\<open>if (!result.images[key] && override.images?.[key]) result.images[key] = override.images[key]\<close>.
\<close>

definition fillImage :: "string option \<Rightarrow> string option \<Rightarrow> string option" where
  "fillImage mine theirs = (if \<not> truthy mine \<and> truthy theirs then theirs else mine)"

text \<open>
  \<^verbatim>\<open>mergeMetadata(base, override, url = '')\<close>. \<open>base\<close> and \<open>override\<close> may be
  \<^verbatim>\<open>null\<close>; an object that is present has its \<^verbatim>\<open>images\<close> object. The body of the
  function is four blocks in sequence, each given a name here: the construction of
  \<^verbatim>\<open>result\<close> from \<open>base\<close>, the block under \<^verbatim>\<open>if (isYouTubeUrl(url))\<close>, the block
  under \<^verbatim>\<open>if (isSpotifyUrl(url))\<close> and the loop that fills missing images.
\<close>

definition resultOfBase :: "metadata option \<Rightarrow> metadata" where
  "resultOfBase base =
     \<lparr>title = js_or (Option.bind base title) None,
      description = js_or (Option.bind base description) None,
      images =
        \<lparr>logo = js_or (Option.bind base (\<lambda>b. logo (images b))) None,
         ogImage = js_or (Option.bind base (\<lambda>b. ogImage (images b))) None,
         favicon = js_or (Option.bind base (\<lambda>b. favicon (images b))) None,
         appleTouchIcon = js_or (Option.bind base (\<lambda>b. appleTouchIcon (images b))) None\<rparr>\<rparr>"

definition youtubeBlock :: "metadata \<Rightarrow> metadata \<Rightarrow> metadata" where
  "youtubeBlock override result =
     (let t = toLowerCase (str_or_empty (title result));
          isGenericTitle = (t = ''- youtube'' \<or> t = ''youtube'');
          result =
            (if isGenericTitle \<or> \<not> truthy (title result)
             then result\<lparr>title := js_nullish (title override) (title result)\<rparr>
             else result);
          d = toLowerCase (str_or_empty (description result));
          isGenericDesc = str_includes d ''enjoy the videos and music you love''
      in if isGenericDesc \<or> \<not> truthy (description result)
         then result\<lparr>description := js_nullish (description override) (description result)\<rparr>
         else result)"

definition spotifyBlock :: "metadata \<Rightarrow> metadata \<Rightarrow> metadata" where
  "spotifyBlock override result =
     (let t = toLowerCase (str_or_empty (title result));
          isGenericTitle = (str_includes t ''spotify'' \<and> str_includes t ''web player'');
          result =
            (if isGenericTitle \<or> \<not> truthy (title result)
             then result\<lparr>title := js_nullish (title override) (title result)\<rparr>
             else result)
      in if \<not> truthy (description result)
         then result\<lparr>description := js_nullish (description override) (description result)\<rparr>
         else result)"

definition fillImages :: "metadata \<Rightarrow> metadata \<Rightarrow> metadata" where
  "fillImages override result =
     result\<lparr>images :=
       \<lparr>logo = fillImage (logo (images result)) (logo (images override)),
        ogImage = fillImage (ogImage (images result)) (ogImage (images override)),
        favicon = fillImage (favicon (images result)) (favicon (images override)),
        appleTouchIcon =
          fillImage (appleTouchIcon (images result)) (appleTouchIcon (images override))\<rparr>\<rparr>"

definition mergeMetadata :: "metadata option \<Rightarrow> metadata option \<Rightarrow> string \<Rightarrow> metadata" where
  "mergeMetadata base override url =
     (let result = resultOfBase base
      in case override of
           None \<Rightarrow> result
         | Some ov \<Rightarrow>
             (let result = (if isYouTubeUrl url then youtubeBlock ov result else result);
                  result = (if isSpotifyUrl url then spotifyBlock ov result else result)
              in fillImages ov result))"

text \<open>
  The generic patterns of the two platforms, as \<^verbatim>\<open>mergeMetadata\<close> and
  \<^verbatim>\<open>needsPlatformFallback\<close> test them: a local title is generic for the URL when the
  URL is a YouTube URL and the lower-cased title is \<^verbatim>\<open>- youtube\<close> or \<^verbatim>\<open>youtube\<close>, or the
  URL is a Spotify URL and the lower-cased title contains \<^verbatim>\<open>spotify\<close> and
  \<^verbatim>\<open>web player\<close>; a local description is generic when the URL is a YouTube URL and
  the lower-cased description contains the YouTube boilerplate sentence.
\<close>

definition genericTitle :: "string \<Rightarrow> string option \<Rightarrow> bool" where
  "genericTitle url t =
     (let s = toLowerCase (str_or_empty t)
      in (isYouTubeUrl url \<and> (s = ''- youtube'' \<or> s = ''youtube''))
         \<or> (isSpotifyUrl url \<and> str_includes s ''spotify'' \<and> str_includes s ''web player''))"

definition genericDescription :: "string \<Rightarrow> string option \<Rightarrow> bool" where
  "genericDescription url d =
     (isYouTubeUrl url
      \<and> str_includes (toLowerCase (str_or_empty d)) ''enjoy the videos and music you love'')"

text \<open>A page scraped from a YouTube URL with specific values, and a platform record.\<close>

definition localPage :: metadata where
  "localPage =
     \<lparr>title = Some ''Rust in 100 seconds'', description = Some ''A short talk'',
      images = \<lparr>logo = Some ''https://i.ytimg.com/logo.png'',
                ogImage = Some ''https://i.ytimg.com/vi/1/hq.jpg'',
                favicon = Some ''https://www.youtube.com/favicon.ico'',
                appleTouchIcon = Some ''https://www.youtube.com/apple.png''\<rparr>\<rparr>"

definition platformPage :: metadata where
  "platformPage =
     \<lparr>title = Some ''Platform title'', description = Some ''By someone'',
      images = \<lparr>logo = None, ogImage = Some ''https://i.ytimg.com/vi/1/default.jpg'',
                favicon = Some ''https://www.youtube.com/s/desktop/6f1c77b6/img/favicon_32x32.png'',
                appleTouchIcon = None\<rparr>\<rparr>"

section \<open>Requests, responses and the environment of one call\<close>

text \<open>
  A thrown JavaScript error, by its message. A variable that holds an error or is still
  \<^verbatim>\<open>undefined\<close> (\<^verbatim>\<open>lastError\<close>) is an \<open>exn option\<close>.
\<close>

datatype exn = Exn string

text \<open>
  A plain object with string values (request headers): an association list in property
  order. \<open>spread a b\<close> is \<^verbatim>\<open>{ ...a, ...b }\<close>: a key of \<open>b\<close> that \<open>a\<close> has keeps its place
  and takes the value of \<open>b\<close>, a new key is appended.
\<close>

type_synonym object = "(string \<times> string) list"

definition spread :: "object \<Rightarrow> object \<Rightarrow> object" where
  "spread a b = foldl (\<lambda>acc (k, v). AList.update k v acc) a b"

text \<open>A response header is a string or, as \<^verbatim>\<open>set-cookie\<close>, an array of strings.\<close>

datatype hval = HString string | HArray "string list"

type_synonym rheaders = "(string \<times> hval) list"

text \<open>
  \<^verbatim>\<open>{ status, statusText, headers, data }\<close> is what an axios response, the browser
  fetch and the result of \<^verbatim>\<open>executeWithRetry\<close> share; \<open>data = None\<close> is a body that is
  not a string. The axios response carries the two places where the code looks for the
  URL after redirects; the result carries \<^verbatim>\<open>attempt\<close>, \<^verbatim>\<open>durationMs\<close>, \<^verbatim>\<open>finalUrl\<close>.
\<close>

record response =
  status :: int
  statusText :: string
  headers :: rheaders
  data :: "string option"

record axiosResponse = response +
  responseUrl :: "string option"
  currentUrl :: "string option"

record result = response +
  attempt :: nat
  durationMs :: int
  finalUrl :: string

text \<open>
  The axios request configuration. Only the fields that vary are kept; every request
  also has the constant fields \<^verbatim>\<open>timeout: REQUEST_TIMEOUT\<close>, \<^verbatim>\<open>maxRedirects: 10\<close>,
  \<^verbatim>\<open>responseType: 'text'\<close>, \<^verbatim>\<open>validateStatus: () => true\<close> and the like.
\<close>

record config =
  cfg_method :: string
  cfg_url :: string
  cfg_headers :: object
  cfg_data :: "string option"

text \<open>The fields of an oEmbed answer that \<^verbatim>\<open>fetchPlatformMetadata\<close> reads.\<close>

record oembedData =
  oe_title :: "string option"
  oe_author_name :: "string option"
  oe_thumbnail_url :: "string option"

text \<open>
  The effects of one call, in the order they happen: the log line that opens inner
  attempt \<open>i\<close> (\<^verbatim>\<open>Attempt i+1/MAX_RETRIES\<close>), an axios request with what came back (an
  error, or a response and the milliseconds it took), a sleep, the resolution of a
  shortened URL, a headless-browser fetch and an oEmbed request.
\<close>

datatype event =
    Attempt nat
  | Request config "exn + axiosResponse \<times> int"
  | Sleep real
  | Resolve string
  | Browser string
  | OEmbed string

text \<open>
  The state threaded through a call: \<open>clock\<close> counts the questions put to the
  environment so far (each answer may depend on it), \<open>trace\<close> lists the effects, oldest
  first.
\<close>

record state =
  clock :: nat
  trace :: "event list"

definition tick :: "state \<Rightarrow> state" where
  "tick s = s\<lparr>clock := clock s + 1\<rparr>"

definition emit :: "event \<Rightarrow> state \<Rightarrow> state" where
  "emit ev s = s\<lparr>trace := trace s @ [ev]\<rparr>"

text \<open>
  The environment of a call. Beyond the URL class it holds
  \<^item> the constants of \<^verbatim>\<open>config/constants\<close>, which is not among the sources:
    \<^verbatim>\<open>MAX_RETRIES\<close> and \<^verbatim>\<open>USER_AGENTS\<close>;
  \<^item> the helpers that the controller imports and that are not among the sources:
    \<^verbatim>\<open>looksLikeBotOrBlockedHtml\<close>, \<^verbatim>\<open>hasUsefulMetadata\<close>, \<^verbatim>\<open>isAmazonUrl\<close> and
    \<^verbatim>\<open>resolveFinalUrl\<close>;
  \<^item> \<^verbatim>\<open>extractMetadata\<close>, whose selectors run on the document that the cheerio library
    parses: its result for a body and a base URL, or the error it throws;
  \<^item> the answers of the outside world: \<^verbatim>\<open>Math.random()\<close>, the axios call, the page content
    that the headless browser returns (\<open>None\<close> when it fails or is not installed), the
    oEmbed endpoint, and \<^verbatim>\<open>encodeURIComponent\<close> (\<open>None\<close> when it throws).
\<close>

record world = runtime +
  MAX_RETRIES :: nat
  USER_AGENTS :: "string list"
  looksLikeBotOrBlockedHtml :: "string \<Rightarrow> string \<Rightarrow> bool"
  hasUsefulMetadata :: "metadata \<Rightarrow> bool"
  isAmazonUrl :: "string \<Rightarrow> bool"
  resolveFinalUrl :: "nat \<Rightarrow> string \<Rightarrow> exn + string"
  extractMetadata :: "string \<Rightarrow> string \<Rightarrow> exn + metadata"
  random :: "nat \<Rightarrow> real"
  axios :: "nat \<Rightarrow> config \<Rightarrow> exn + axiosResponse \<times> int"
  browserContent :: "nat \<Rightarrow> string \<Rightarrow> string option"
  oembed :: "nat \<Rightarrow> string \<Rightarrow> exn + oembedData"
  encodeURIComponent :: "string \<Rightarrow> string option"

text \<open>
  \<^verbatim>\<open>getRandomUserAgent()\<close>: \<^verbatim>\<open>USER_AGENTS[Math.floor(Math.random() * USER_AGENTS.length)]\<close>,
  which is \<^verbatim>\<open>undefined\<close> when the index is outside the array. The argument \<open>t\<close> is the
  clock at the call, which selects the value of \<^verbatim>\<open>Math.random()\<close>; the caller ticks the
  clock.
\<close>

definition getRandomUserAgent :: "world \<Rightarrow> nat \<Rightarrow> string option" where
  "getRandomUserAgent W t =
     (let idx = \<lfloor>random W t * real (length (USER_AGENTS W))\<rfloor>
      in if 0 \<le> idx \<and> idx < int (length (USER_AGENTS W))
         then Some (USER_AGENTS W ! nat idx) else None)"

text \<open>
  \<^verbatim>\<open>sleep(calculateBackoffDelay(attempt))\<close>: one draw of \<^verbatim>\<open>Math.random()\<close>, then the wait.
\<close>

definition backoffSleep :: "world \<Rightarrow> nat \<Rightarrow> state \<Rightarrow> state" where
  "backoffSleep W i s =
     (let delay = calculateBackoffDelay i (random W (clock s))
      in emit (Sleep delay) (tick s))"

text \<open>
  \<^verbatim>\<open>generateHeaders(url, userAgent)\<close>. \<^verbatim>\<open>new URL(url)\<close> throws on an invalid URL, and
  \<^verbatim>\<open>userAgent.includes\<close> throws when the user agent is \<^verbatim>\<open>undefined\<close>.
\<close>

definition generateHeaders :: "world \<Rightarrow> string \<Rightarrow> string option \<Rightarrow> exn + object" where
  \<open>generateHeaders W url userAgent =
     (case newURL W url of
        None \<Rightarrow> Inl (Exn ''Invalid URL'')
      | Some urlObj \<Rightarrow>
          (case userAgent of
             None \<Rightarrow> Inl (Exn ''Cannot read properties of undefined'')
           | Some ua \<Rightarrow>
               (let origin = protocol urlObj @ ''//'' @ hostname urlObj;
                    hostname = toLowerCase (hostname urlObj);
                    lang = (if str_includes hostname ''blinkit.com''
                            then ''en-IN,hi;q=0.8,en-US;q=0.7,en;q=0.6'' else ''en-US,en;q=0.9'');
                    platform = (if str_includes ua ''Windows NT'' then ''"Windows"''
                                else if str_includes ua ''Macintosh'' then ''"macOS"''
                                else if str_includes ua ''Linux'' then ''"Linux"''
                                else ''"Unknown"'');
                    isChromiumLike = (str_includes ua ''Chrome/'' \<or> str_includes ua ''Edg/'');
                    secFetchSite = (if URL.hostname urlObj \<noteq> []
                                       \<and> str_includes origin (URL.hostname urlObj)
                                    then ''same-origin'' else ''none'')
                in Inr ([(''User-Agent'', ua),
                         (''Accept'', ''text/html,application/xhtml+xml,application/xml;q=0.9,image/avif,image/webp,image/apng,*/*;q=0.8''),
                         (''Accept-Language'', lang),
                         (''Accept-Encoding'', ''gzip, deflate, br''),
                         (''DNT'', ''1''),
                         (''Connection'', ''keep-alive''),
                         (''Upgrade-Insecure-Requests'', ''1'')]
                        @ (if isChromiumLike
                           then [(''Sec-Ch-Ua'', ''"Not.A/Brand";v="99", "Chromium";v="120", "Google Chrome";v="120"''),
                                 (''Sec-Ch-Ua-Mobile'', ''?0''),
                                 (''Sec-Ch-Ua-Platform'', platform)]
                           else [])
                        @ [(''Sec-Fetch-Dest'', ''document''),
                           (''Sec-Fetch-Mode'', ''navigate''),
                           (''Sec-Fetch-Site'', secFetchSite),
                           (''Sec-Fetch-User'', ''?1''),
                           (''Cache-Control'', ''max-age=0''),
                           (''Referer'', url),
                           (''Origin'', origin)]))))\<close>

section \<open>The retry orchestrator\<close>

definition isSpace :: "char \<Rightarrow> bool" where
  "isSpace c = (c \<in> set [CHR '' '', CHR 0x09, CHR 0x0A, CHR 0x0B, CHR 0x0C, CHR 0x0D])"

text \<open>
  \<open>wordAtStart name s\<close>: the lower-case word \<open>name\<close>, in any case, stands at the start of
  \<open>s\<close> and ends at a word boundary. \<open>tagTest name s\<close> is \<^verbatim>\<open>/<\s*name\b/i.test(s)\<close>.
\<close>

definition wordAtStart :: "string \<Rightarrow> string \<Rightarrow> bool" where
  "wordAtStart name s =
     (toLowerCase (take (length name) s) = name
      \<and> (case drop (length name) s of [] \<Rightarrow> True | c # _ \<Rightarrow> \<not> isWordChar c))"

fun tagTest :: "string \<Rightarrow> string \<Rightarrow> bool" where
  "tagTest name [] = False"
| "tagTest name (c # cs) =
     ((c = CHR ''<'' \<and> wordAtStart name (dropWhile isSpace cs)) \<or> tagTest name cs)"

text \<open>\<^verbatim>\<open>isHtmlContent(response)\<close> of the helpers.\<close>

definition isHtmlContent :: "'a response_scheme \<Rightarrow> bool" where
  "isHtmlContent response =
     (case map_of (headers response) ''content-type'' of
        None \<Rightarrow> False
      | Some (HString contentType) \<Rightarrow> str_includes contentType ''text/html''
      | Some (HArray contentType) \<Rightarrow> ''text/html'' \<in> set contentType)"

text \<open>
  The relaxed test for an HTML-like body, written out twice in the controller (as
  \<^verbatim>\<open>htmlOk\<close> and as \<^verbatim>\<open>effectiveSeemsHtml\<close>): the body is a non-empty string and the
  content type says HTML or the body has an \<^verbatim>\<open>html\<close>, \<^verbatim>\<open>head\<close> or \<^verbatim>\<open>title\<close> tag.
\<close>

definition seemsHtml :: "'a response_scheme \<Rightarrow> string \<Rightarrow> bool" where
  "seemsHtml response bodyText =
     (bodyText \<noteq> []
      \<and> (isHtmlContent response
         \<or> tagTest ''html'' bodyText
         \<or> tagTest ''head'' bodyText
         \<or> tagTest ''title'' bodyText))"

text \<open>
  \<^verbatim>\<open>Boolean(m?.title || m?.description || m?.images?.logo || m?.images?.ogImage ||
  m?.images?.favicon || m?.images?.appleTouchIcon)\<close> for a metadata object that is present.
\<close>

definition anyField :: "metadata \<Rightarrow> bool" where
  "anyField m =
     (truthy (title m) \<or> truthy (description m) \<or> truthy (logo (images m))
      \<or> truthy (ogImage (images m)) \<or> truthy (favicon (images m))
      \<or> truthy (appleTouchIcon (images m)))"

text \<open>
  \<^verbatim>\<open>response?.request?.res?.responseUrl || response?.request?._redirectable?._currentUrl || url\<close>.
\<close>

definition finalUrlOf :: "axiosResponse \<Rightarrow> string \<Rightarrow> string" where
  "finalUrlOf response url =
     (if truthy (responseUrl response) then str_or_empty (responseUrl response)
      else if truthy (currentUrl response) then str_or_empty (currentUrl response)
      else url)"

text \<open>\<^verbatim>\<open>c.split(';')[0]\<close> and \<^verbatim>\<open>pairs.join('; ')\<close>.\<close>

definition firstSegment :: "string \<Rightarrow> string" where
  "firstSegment c = takeWhile (\<lambda>x. x \<noteq> CHR '';'') c"

fun joinWith :: "string \<Rightarrow> string list \<Rightarrow> string" where
  "joinWith sep [] = []"
| "joinWith sep [p] = p"
| "joinWith sep (p # q # ps) = p @ sep @ joinWith sep (q # ps)"

text \<open>
  The sticky cookie after a response: the \<^verbatim>\<open>name=value\<close> pairs of its \<^verbatim>\<open>Set-Cookie\<close>
  header when it has one, the cookie held before otherwise.
\<close>

definition nextStickyCookie :: "rheaders \<Rightarrow> string \<Rightarrow> string" where
  "nextStickyCookie hs stickyCookie =
     (let lower = map_of hs ''set-cookie'';
          setCookies = (if lower = None \<or> lower = Some (HString []) then map_of hs ''Set-Cookie''
                        else lower)
      in case setCookies of
           Some (HArray cs) \<Rightarrow>
             (if cs \<noteq> [] then
                (let pairs = filter (\<lambda>p. p \<noteq> []) (map firstSegment cs)
                 in if pairs \<noteq> [] then joinWith ''; '' pairs else stickyCookie)
              else stickyCookie)
         | Some (HString c) \<Rightarrow> (if c \<noteq> [] then firstSegment c else stickyCookie)
         | None \<Rightarrow> stickyCookie)"

text \<open>
  The flags that \<^verbatim>\<open>executeWithRetry\<close> computes from a response (lines
  \<^verbatim>\<open>const upstreamOk = ...\<close> to \<^verbatim>\<open>const shouldRetry = ...\<close>). An exception of
  \<^verbatim>\<open>extractMetadata\<close> or of \<^verbatim>\<open>new URL(finalUrl)\<close> is caught there and leaves the flag
  \<^verbatim>\<open>false\<close>. The argument \<open>pageUrl\<close> is the \<^verbatim>\<open>finalUrl\<close> of the source.
\<close>

record verdict =
  upstreamOk :: bool
  htmlOk :: bool
  metaOk :: bool
  blockedHtml :: bool
  domainIsBlinkit :: bool
  looksBlocked :: bool
  shouldRetry :: bool

definition judge :: "world \<Rightarrow> axiosResponse \<Rightarrow> string \<Rightarrow> verdict" where
  "judge W response pageUrl =
     (let upstreamOk = (200 \<le> status response \<and> status response < 300);
          bodyText = str_or_empty (data response);
          htmlOk = seemsHtml response bodyText;
          metaOk =
            (if htmlOk then
               (case extractMetadata W bodyText pageUrl of
                  Inl error \<Rightarrow> False
                | Inr m \<Rightarrow>
                    (let t = toLowerCase (str_or_empty (title m));
                         d = toLowerCase (str_or_empty (description m));
                         errorish = (str_includes t ''403'' \<or> str_includes t ''forbidden''
                                     \<or> str_includes t ''blocked'' \<or> str_includes t ''captcha''
                                     \<or> str_includes t ''error'' \<or> str_includes d ''error'')
                     in \<not> errorish \<and> anyField m))
             else False);
          blockedHtml = (htmlOk \<and> looksLikeBotOrBlockedHtml W bodyText pageUrl);
          domainIsBlinkit =
            (case newURL W pageUrl of
               None \<Rightarrow> False
             | Some u \<Rightarrow> str_includes (hostname u) ''blinkit.com'');
          bodyStr = toLowerCase bodyText;
          looksBlocked = (str_includes bodyStr ''access denied'' \<or> str_includes bodyStr ''forbidden''
                          \<or> str_includes bodyStr ''blocked'' \<or> str_includes bodyStr ''captcha'');
          shouldRetry =
            ((\<not> upstreamOk
              \<and> (status response = 403 \<or> status response = 429 \<or> status response = 503))
             \<or> (domainIsBlinkit \<and> looksBlocked \<and> \<not> metaOk)
             \<or> (blockedHtml \<and> \<not> metaOk))
      in \<lparr>upstreamOk = upstreamOk, htmlOk = htmlOk, metaOk = metaOk, blockedHtml = blockedHtml,
          domainIsBlinkit = domainIsBlinkit, looksBlocked = looksBlocked,
          shouldRetry = shouldRetry\<rparr>)"

text \<open>
  One round of the loop \<^verbatim>\<open>for (let attempt = 0; attempt < MAX_RETRIES; attempt++)\<close>; the
  loop variable is \<open>i\<close> here. A round ends by returning a result, by throwing, or by going
  on to the next round with the sticky cookie and \<^verbatim>\<open>lastError\<close> it leaves behind.
\<close>

datatype outcome = Return result | Throw "exn option" | Again string "exn option"

text \<open>The \<^verbatim>\<open>catch (error)\<close> block.\<close>

definition caught :: "world \<Rightarrow> nat \<Rightarrow> string \<Rightarrow> exn \<Rightarrow> state \<Rightarrow> outcome \<times> state" where
  "caught W i stickyCookie error s =
     (if int i = int (MAX_RETRIES W) - 1 then (Throw (Some error), s)
      else (Again stickyCookie (Some error), backoffSleep W i s))"

text \<open>The \<^verbatim>\<open>try\<close> block from the response on.\<close>

definition afterResponse ::
  "world \<Rightarrow> string \<Rightarrow> nat \<Rightarrow> string \<Rightarrow> exn option \<Rightarrow> axiosResponse \<Rightarrow> int \<Rightarrow> state
     \<Rightarrow> outcome \<times> state" where
  "afterResponse W url i stickyCookie lastError response ms s =
     (let finalUrl = finalUrlOf response url;
          stickyCookie = nextStickyCookie (headers response) stickyCookie;
          v = judge W response finalUrl
      in if (upstreamOk v \<and> \<not> blockedHtml v) \<or> metaOk v
            \<or> int i = int (MAX_RETRIES W) - 1 \<or> \<not> shouldRetry v
         then (Return \<lparr>status = status response, statusText = statusText response,
                        headers = headers response, data = data response,
                        attempt = i + 1, durationMs = ms, finalUrl = finalUrl\<rparr>, s)
         else (Again stickyCookie lastError, backoffSleep W i s))"

text \<open>
  The request configuration of an attempt: the generated headers, overridden by the
  caller's headers, overridden by the sticky cookie when there is one; the body only for
  \<^verbatim>\<open>POST\<close>, \<^verbatim>\<open>PUT\<close> and \<^verbatim>\<open>PATCH\<close>.
\<close>

definition buildConfig ::
  "string \<Rightarrow> string \<Rightarrow> object \<Rightarrow> string option \<Rightarrow> string \<Rightarrow> object \<Rightarrow> config" where
  "buildConfig url method customHeaders reqData stickyCookie browserHeaders =
     (let finalHeaders =
            spread (spread browserHeaders customHeaders)
              (if stickyCookie \<noteq> [] then [(''Cookie'', stickyCookie)] else [])
      in \<lparr>cfg_method = toUpperCase method, cfg_url = url, cfg_headers = finalHeaders,
          cfg_data =
            (if truthy reqData \<and> toUpperCase method \<in> set [''POST'', ''PUT'', ''PATCH'']
             then reqData else None)\<rparr>)"

definition attemptBody ::
  "world \<Rightarrow> string \<Rightarrow> string \<Rightarrow> object \<Rightarrow> string option \<Rightarrow> nat \<Rightarrow> string \<Rightarrow> exn option
     \<Rightarrow> state \<Rightarrow> outcome \<times> state" where
  "attemptBody W url method customHeaders reqData i stickyCookie lastError s =
     (let s0 = emit (Attempt i) s;
          userAgent = getRandomUserAgent W (clock s0);
          s1 = tick s0
      in case generateHeaders W url userAgent of
           Inl error \<Rightarrow> caught W i stickyCookie error s1
         | Inr browserHeaders \<Rightarrow>
             (let config = buildConfig url method customHeaders reqData stickyCookie browserHeaders;
                  answer = axios W (clock s1) config;
                  s2 = emit (Request config answer) (tick s1)
              in case answer of
                   Inl error \<Rightarrow> caught W i stickyCookie error s2
                 | Inr (response, ms) \<Rightarrow>
                     afterResponse W url i stickyCookie lastError response ms s2))"

function retryLoop ::
  "world \<Rightarrow> string \<Rightarrow> string \<Rightarrow> object \<Rightarrow> string option \<Rightarrow> nat \<Rightarrow> string \<Rightarrow> exn option
     \<Rightarrow> state \<Rightarrow> (exn option + result) \<times> state" where
  "retryLoop W url method customHeaders reqData i stickyCookie lastError s =
     (if i < MAX_RETRIES W then
        (case attemptBody W url method customHeaders reqData i stickyCookie lastError s of
           (Return r, s') \<Rightarrow> (Inr r, s')
         | (Throw e, s') \<Rightarrow> (Inl e, s')
         | (Again stickyCookie' lastError', s') \<Rightarrow>
             retryLoop W url method customHeaders reqData (i + 1) stickyCookie' lastError' s')
      else (Inl lastError, s))"
  by pat_completeness auto
termination
  by (relation "measure (\<lambda>(W, url, method, customHeaders, reqData, i, stickyCookie, lastError, s).
        MAX_RETRIES W - i)") auto

declare retryLoop.simps [simp del]

text \<open>
  \<^verbatim>\<open>executeWithRetry(url, method, customHeaders = {}, data = null)\<close>: the loop from
  attempt 0 with \<^verbatim>\<open>stickyCookie = ''\<close> and \<^verbatim>\<open>lastError\<close> undefined; \<open>Inl\<close> is the value it
  throws.
\<close>

definition executeWithRetry ::
  "world \<Rightarrow> string \<Rightarrow> string \<Rightarrow> object \<Rightarrow> string option \<Rightarrow> state
     \<Rightarrow> (exn option + result) \<times> state" where
  "executeWithRetry W url method customHeaders reqData s =
     retryLoop W url method customHeaders reqData 0 [] None s"

section \<open>The quality-gated retrieval loop\<close>

text \<open>
  The parameters of a request after \<^verbatim>\<open>{ ...req.query, ...req.body }\<close>: each of \<^verbatim>\<open>url\<close>,
  \<^verbatim>\<open>method\<close>, \<^verbatim>\<open>headers\<close> and \<^verbatim>\<open>data\<close> is a string (an object of strings for the
  headers) or absent. Values of other JSON types are outside this model.
\<close>

record input =
  in_url :: "string option"
  in_method :: "string option"
  in_headers :: "object option"
  in_data :: "string option"

text \<open>The texts of \<^verbatim>\<open>MESSAGES\<close> in \<^verbatim>\<open>config/constants\<close>, by their keys.\<close>

datatype message = MISSING_URL | INVALID_METHOD | REQUEST_FAILED

text \<open>
  The \<^verbatim>\<open>data\<close> object of a successful reply. The field \<^verbatim>\<open>linkType\<close> (the result of
  \<^verbatim>\<open>classifyLinkType\<close>, computed after the loop from the final values) and the timestamp
  are left out; nothing else reads them.
\<close>

record responseData =
  rd_url :: string
  rd_resolvedUrl :: "string option"
  rd_method :: string
  rd_status :: int
  rd_statusText :: string
  rd_domain :: string
  rd_contentType :: hval
  rd_responseTime :: int
  rd_attempt :: nat
  rd_metadata :: "metadata option"

text \<open>
  What the handler sends: \<^verbatim>\<open>res.status(c).json(formatLambdaResponse(c, { error, details,
  url }))\<close> with the status, the message, the details and the URL, or
  \<^verbatim>\<open>res.status(httpStatus).json({ success, data, attempt, timestamp })\<close>.
\<close>

datatype reply =
    LambdaError int message "string option" "string option"
  | Json int bool responseData nat

definition validMethods :: "string list" where
  "validMethods = [''GET'', ''POST'', ''PUT'', ''DELETE'', ''PATCH'', ''HEAD'']"

definition shorteners :: "string list" where
  "shorteners = [''amzn.in'', ''amzn.to'', ''bit.ly'', ''t.co'', ''tinyurl.com'', ''goo.gl'',
     ''rebrand.ly'', ''cutt.ly'', ''is.gd'', ''rb.gy'', ''buff.ly'', ''lnkd.in'']"

definition qualityAttempts :: nat where
  "qualityAttempts = 3"

text \<open>
  The block that sets \<^verbatim>\<open>targetUrl\<close>: an exception of \<^verbatim>\<open>new URL(url)\<close> or of
  \<^verbatim>\<open>resolveFinalUrl\<close> is swallowed and leaves \<^verbatim>\<open>targetUrl = url\<close>.
\<close>

definition resolveTarget :: "world \<Rightarrow> string \<Rightarrow> state \<Rightarrow> string \<times> state" where
  "resolveTarget W url s =
     (case newURL W url of
        None \<Rightarrow> (url, s)
      | Some u \<Rightarrow>
          (let h = toLowerCase (hostname u)
           in if h \<in> set shorteners then
                (case resolveFinalUrl W (clock s) url of
                   Inl error \<Rightarrow> (url, emit (Resolve url) (tick s))
                 | Inr resolved \<Rightarrow> (resolved, emit (Resolve url) (tick s)))
              else (url, s)))"

definition isAlnum :: "char \<Rightarrow> bool" where
  "isAlnum c = (c \<in> set ''abcdefghijklmnopqrstuvwxyzABCDEFGHIJKLMNOPQRSTUVWXYZ0123456789'')"

definition tenAlnum :: "string \<Rightarrow> bool" where
  "tenAlnum s = (10 \<le> length s \<and> list_all isAlnum (take 10 s))"

text \<open>\<^verbatim>\<open>/\/(dp|gp\/product)\/[a-z0-9]{10}/i.test(p)\<close>.\<close>

fun amazonProductPath :: "string \<Rightarrow> bool" where
  "amazonProductPath [] = False"
| "amazonProductPath (c # cs) =
     ((startsWith (toLowerCase (c # cs)) ''/dp/'' \<and> tenAlnum (drop 4 (c # cs)))
      \<or> (startsWith (toLowerCase (c # cs)) ''/gp/product/'' \<and> tenAlnum (drop 12 (c # cs)))
      \<or> amazonProductPath cs)"

definition expectedAmazon :: "world \<Rightarrow> string \<Rightarrow> string \<Rightarrow> bool" where
  "expectedAmazon W effectiveUrl targetUrl =
     (let candidate = (if effectiveUrl \<noteq> [] then effectiveUrl else targetUrl)
      in if \<not> isAmazonUrl W candidate then False
         else (case newURL W candidate of
                 Some u \<Rightarrow> amazonProductPath (pathname u)
               | None \<Rightarrow> amazonProductPath candidate))"

definition trim :: "string \<Rightarrow> string" where
  "trim s = rev (dropWhile isSpace (rev (dropWhile isSpace s)))"

text \<open>
  The closure \<^verbatim>\<open>isAmazonProductOk(m, html)\<close>; its first argument here is the
  \<^verbatim>\<open>expectedAmazonProduct\<close> it closes over.
\<close>

definition isAmazonProductOk :: "bool \<Rightarrow> metadata \<Rightarrow> string \<Rightarrow> bool" where
  "isAmazonProductOk expectedAmazonProduct m html =
     (if \<not> expectedAmazonProduct then True
      else (let t = toLowerCase (trim (str_or_empty (title m)))
            in if t = [] then False
               else if t = ''amazon.in'' \<or> t = ''amazon'' then False
               else if str_includes t ''robot'' \<or> str_includes t ''captcha''
                       \<or> str_includes t ''access denied'' \<or> str_includes t ''forbidden''
                    then False
               else (let og = toLowerCase (str_or_empty (ogImage (images m)));
                         ogOk = (str_includes og ''m.media-amazon.com''
                                 \<or> str_includes og ''images-na.ssl-images-amazon.com''
                                 \<or> str_includes og ''images-eu.ssl-images-amazon.com'');
                         h = toLowerCase html;
                         htmlFound = (str_includes h ''producttitle'' \<or> str_includes h ''data-asin''
                                   \<or> str_includes h ''add-to-cart''
                                   \<or> str_includes h ''acrcustomerreviewtext'')
                     in ogOk \<and> htmlFound)))"

definition needsBrowserFetch :: "string \<Rightarrow> bool" where
  "needsBrowserFetch url =
     (if url = [] then False else str_includes (toLowerCase url) ''blinkit.com'')"

text \<open>
  \<^verbatim>\<open>fetchHtmlWithBrowser(url)\<close>: the page content wrapped as a response, or \<^verbatim>\<open>null\<close>.
\<close>

definition fetchHtmlWithBrowser :: "world \<Rightarrow> string \<Rightarrow> state \<Rightarrow> response option \<times> state" where
  "fetchHtmlWithBrowser W url s =
     (case browserContent W (clock s) url of
        None \<Rightarrow> (None, emit (Browser url) (tick s))
      | Some html \<Rightarrow>
          (Some \<lparr>status = 200, statusText = ''OK'',
                 headers = [(''content-type'', HString ''text/html; charset=UTF-8'')],
                 data = Some html\<rparr>,
           emit (Browser url) (tick s)))"

text \<open>
  \<^verbatim>\<open>fetchPlatformMetadata(url)\<close>: every exception inside is caught and gives \<^verbatim>\<open>null\<close>.
\<close>

definition platformRecord :: "string option \<Rightarrow> string option \<Rightarrow> string option \<Rightarrow> string \<Rightarrow> metadata" where
  "platformRecord t d thumb icon =
     \<lparr>title = js_or t None, description = d,
      images = \<lparr>logo = None, ogImage = js_or thumb None, favicon = Some icon,
                appleTouchIcon = None\<rparr>\<rparr>"

definition oembedGet :: "world \<Rightarrow> string \<Rightarrow> state \<Rightarrow> (exn + oembedData) \<times> state" where
  "oembedGet W oembedUrl s =
     (let userAgent = getRandomUserAgent W (clock s);
          s1 = tick s;
          answer = oembed W (clock s1) oembedUrl
      in (answer, emit (OEmbed oembedUrl) (tick s1)))"

definition fetchPlatformMetadata :: "world \<Rightarrow> string \<Rightarrow> state \<Rightarrow> metadata option \<times> state" where
  "fetchPlatformMetadata W url s =
     (if isYouTubeUrl url then
        (case encodeURIComponent W url of
           None \<Rightarrow> (None, s)
         | Some enc \<Rightarrow>
             (case oembedGet W (''https://www.youtube.com/oembed?url='' @ enc @ ''&format=json'') s of
                (Inl error, s') \<Rightarrow> (None, s')
              | (Inr d, s') \<Rightarrow>
                  (Some (platformRecord (oe_title d)
                           (if truthy (oe_author_name d)
                            then Some (''By '' @ str_or_empty (oe_author_name d)) else None)
                           (oe_thumbnail_url d)
                           ''https://www.youtube.com/s/desktop/6f1c77b6/img/favicon_32x32.png''),
                   s')))
      else if isSpotifyUrl url then
        (case encodeURIComponent W url of
           None \<Rightarrow> (None, s)
         | Some enc \<Rightarrow>
             (case oembedGet W (''https://open.spotify.com/oembed?url='' @ enc) s of
                (Inl error, s') \<Rightarrow> (None, s')
              | (Inr d, s') \<Rightarrow>
                  (Some (platformRecord (oe_title d) (js_or (oe_author_name d) None)
                           (oe_thumbnail_url d)
                           ''https://open.spotifycdn.com/cdn/images/favicon32.8bbb0783.png''),
                   s')))
      else (None, s))"

text \<open>
  The variables that one round of the quality loop leaves behind and that the code after
  the loop reads.
\<close>

record vars =
  effectiveResult :: result
  effectiveUrl :: string
  v_metadata :: "metadata option"
  totalAttempt :: nat

datatype qoutcome = QThrow "exn option" | QBreak vars | QNext vars

text \<open>
  The browser fallback inside a round: when the fetch gives a non-empty string, it
  replaces the working result and the metadata is extracted again from the rendered page.
\<close>

definition browserStep ::
  "world \<Rightarrow> string \<Rightarrow> result \<Rightarrow> metadata \<Rightarrow> state \<Rightarrow> (exn + result \<times> metadata) \<times> state" where
  "browserStep W url res m s =
     (case fetchHtmlWithBrowser W url s of
        (None, s') \<Rightarrow> (Inr (res, m), s')
      | (Some browserRes, s') \<Rightarrow>
          (case data browserRes of
             None \<Rightarrow> (Inr (res, m), s')
           | Some html \<Rightarrow>
               (if html = [] then (Inr (res, m), s')
                else (let res' = \<lparr>status = status browserRes, statusText = statusText browserRes,
                                   headers = headers browserRes, data = data browserRes,
                                   attempt = (if attempt res \<noteq> 0 then attempt res else 0) + 1,
                                   durationMs = durationMs res, finalUrl = url\<rparr>
                      in case extractMetadata W html url of
                           Inl error \<Rightarrow> (Inl error, s')
                         | Inr m' \<Rightarrow> (Inr (res', m'), s')))))"

text \<open>The platform fallback and the favicon backfill of a round.\<close>

definition platformStep :: "world \<Rightarrow> string \<Rightarrow> metadata \<Rightarrow> state \<Rightarrow> metadata \<times> state" where
  "platformStep W url m s =
     (if needsPlatformFallback url (Some m) then
        (case fetchPlatformMetadata W url s of
           (Some platformMeta, s') \<Rightarrow> (mergeMetadata (Some m) (Some platformMeta) url, s')
         | (None, s') \<Rightarrow> (m, s'))
      else (m, s))"

definition faviconBackfill :: "world \<Rightarrow> string \<Rightarrow> metadata \<Rightarrow> metadata" where
  "faviconBackfill W url m =
     (if \<not> truthy (favicon (images m)) then
        (case newURL W url of
           Some u \<Rightarrow>
             m\<lparr>images := (images m)\<lparr>favicon :=
                  Some (protocol u @ ''//'' @ hostname u @ ''/favicon.ico'')\<rparr>\<rparr>
         | None \<Rightarrow> m)
      else m)"

text \<open>The branch \<^verbatim>\<open>if (effectiveSeemsHtml) { ... }\<close> of a round, up to the backoff.\<close>

definition htmlRound ::
  "world \<Rightarrow> nat \<Rightarrow> bool \<Rightarrow> result \<Rightarrow> string \<Rightarrow> string \<Rightarrow> nat \<Rightarrow> state \<Rightarrow> qoutcome \<times> state" where
  "htmlRound W q expectedAmazonProduct res url effectiveBody attemptNo s =
     (case extractMetadata W effectiveBody url of
        Inl error \<Rightarrow> (QThrow (Some error), s)
      | Inr m \<Rightarrow>
          (let hasMeta = hasUsefulMetadata W m;
               blocked = looksLikeBotOrBlockedHtml W effectiveBody url;
               amazonOk = isAmazonProductOk expectedAmazonProduct m effectiveBody;
               shouldBrowserFetch = ((\<not> hasMeta \<and> blocked) \<or> (\<not> hasMeta \<and> needsBrowserFetch url)
                                     \<or> (expectedAmazonProduct \<and> \<not> amazonOk))
           in case (if shouldBrowserFetch then browserStep W url res m s else (Inr (res, m), s)) of
                (Inl error, s1) \<Rightarrow> (QThrow (Some error), s1)
              | (Inr (res1, m1), s1) \<Rightarrow>
                  (case platformStep W url m1 s1 of
                     (m2, s2) \<Rightarrow>
                       (let m3 = faviconBackfill W url m2;
                            finalBody = (case data res1 of Some d \<Rightarrow> d | None \<Rightarrow> effectiveBody);
                            finalAmazonOk = isAmazonProductOk expectedAmazonProduct m3 finalBody;
                            finalHasMeta = hasUsefulMetadata W m3;
                            finalBlocked = looksLikeBotOrBlockedHtml W finalBody url;
                            qualityOk = (if expectedAmazonProduct then finalAmazonOk
                                         else finalHasMeta \<and> \<not> (finalBlocked \<and> \<not> finalHasMeta));
                            v = \<lparr>effectiveResult = res1, effectiveUrl = url,
                                 v_metadata = Some m3, totalAttempt = attemptNo\<rparr>
                        in if qualityOk then (QBreak v, s2)
                           else (QNext v,
                                 if int q < int qualityAttempts - 1 then backoffSleep W q s2
                                 else s2)))))"

text \<open>
  One round of \<^verbatim>\<open>for (let qualityAttempt = 0; qualityAttempt < qualityAttempts;
  qualityAttempt++)\<close>; the loop variable is \<open>q\<close>.
\<close>

definition qualityBody ::
  "world \<Rightarrow> string \<Rightarrow> string \<Rightarrow> object \<Rightarrow> string option \<Rightarrow> nat \<Rightarrow> state \<Rightarrow> qoutcome \<times> state" where
  "qualityBody W targetUrl method customHeaders reqData q s =
     (case executeWithRetry W targetUrl method customHeaders reqData s of
        (Inl error, s') \<Rightarrow> (QThrow error, s')
      | (Inr res, s') \<Rightarrow>
          (let url = (if finalUrl res \<noteq> [] then finalUrl res else targetUrl);
               attemptNo = q * MAX_RETRIES W + (if attempt res \<noteq> 0 then attempt res else 1);
               effectiveBody = str_or_empty (data res);
               effectiveSeemsHtml = seemsHtml res effectiveBody;
               expectedAmazonProduct = expectedAmazon W url targetUrl
           in if effectiveSeemsHtml
              then htmlRound W q expectedAmazonProduct res url effectiveBody attemptNo s'
              else (QBreak \<lparr>effectiveResult = res, effectiveUrl = url, v_metadata = None,
                            totalAttempt = attemptNo\<rparr>, s')))"

function qualityLoop ::
  "world \<Rightarrow> string \<Rightarrow> string \<Rightarrow> object \<Rightarrow> string option \<Rightarrow> nat \<Rightarrow> vars option \<Rightarrow> state
     \<Rightarrow> (exn option + vars option) \<times> state" where
  "qualityLoop W targetUrl method customHeaders reqData q prev s =
     (if q < qualityAttempts then
        (case qualityBody W targetUrl method customHeaders reqData q s of
           (QThrow error, s') \<Rightarrow> (Inl error, s')
         | (QBreak v, s') \<Rightarrow> (Inr (Some v), s')
         | (QNext v, s') \<Rightarrow>
             qualityLoop W targetUrl method customHeaders reqData (q + 1) (Some v) s')
      else (Inr prev, s))"
  by pat_completeness auto
termination
  by (relation "measure (\<lambda>(W, targetUrl, method, customHeaders, reqData, q, prev, s).
        qualityAttempts - q)") auto

declare qualityLoop.simps [simp del]

text \<open>
  The code after the loop: the flags of the caller-facing status and the reply. \<open>url\<close> and
  \<open>method\<close> are those of the request.
\<close>

definition hasUsefulMeta :: "vars \<Rightarrow> bool" where
  "hasUsefulMeta v =
     ((case v_metadata v of None \<Rightarrow> False | Some m \<Rightarrow> anyField m)
      \<or> isHtmlContent (effectiveResult v))"

definition titleOf :: "vars \<Rightarrow> string" where
  "titleOf v = (case v_metadata v of None \<Rightarrow> [] | Some m \<Rightarrow> str_or_empty (title m))"

definition looksError :: "world \<Rightarrow> vars \<Rightarrow> bool" where
  "looksError W v =
     ((looksLikeBotOrBlockedHtml W (str_or_empty (data (effectiveResult v))) (effectiveUrl v)
       \<and> \<not> hasUsefulMeta v)
      \<or> str_includes (toLowerCase (titleOf v)) ''error'')"

definition clientSuccess :: "world \<Rightarrow> vars \<Rightarrow> bool" where
  "clientSuccess W v =
     (let upstreamOk = (200 \<le> status (effectiveResult v) \<and> status (effectiveResult v) < 300)
      in (upstreamOk \<and> \<not> looksError W v) \<or> (hasUsefulMeta v \<and> \<not> looksError W v))"

definition respond :: "world \<Rightarrow> string \<Rightarrow> string \<Rightarrow> vars \<Rightarrow> reply" where
  "respond W url method v =
     (let res = effectiveResult v;
          responseData =
            \<lparr>rd_url = url,
             rd_resolvedUrl = (if effectiveUrl v \<noteq> url then Some (effectiveUrl v) else None),
             rd_method = toUpperCase method,
             rd_status = status res,
             rd_statusText = statusText res,
             rd_domain = (case newURL W (effectiveUrl v) of Some u \<Rightarrow> hostname u | None \<Rightarrow> []),
             rd_contentType =
               (case map_of (headers res) ''content-type'' of
                  Some (HString c) \<Rightarrow>
                    (if c \<noteq> [] then HString c
                     else (case map_of (headers res) ''Content-Type'' of
                             Some (HString c') \<Rightarrow> HString c'
                           | Some (HArray cs) \<Rightarrow> HArray cs
                           | None \<Rightarrow> HString []))
                | Some (HArray cs) \<Rightarrow> HArray cs
                | None \<Rightarrow>
                    (case map_of (headers res) ''Content-Type'' of
                       Some (HString c') \<Rightarrow> HString c'
                     | Some (HArray cs) \<Rightarrow> HArray cs
                     | None \<Rightarrow> HString [])),
             rd_responseTime = durationMs res,
             rd_attempt = totalAttempt v,
             rd_metadata = v_metadata v\<rparr>;
          httpStatus = (if clientSuccess W v then 200 else status res)
      in Json httpStatus (clientSuccess W v) responseData (totalAttempt v))"

text \<open>
  The handler from the shortener resolution on. The \<^verbatim>\<open>catch\<close> block reads
  \<^verbatim>\<open>error.message\<close>: when the value thrown is \<^verbatim>\<open>undefined\<close> that read throws again and
  no reply is sent (\<open>None\<close>). Leaving the loop without a result cannot happen with three
  rounds; there the code after the loop would throw on \<^verbatim>\<open>effectiveResult\<close>.
\<close>

definition pipeline ::
  "world \<Rightarrow> string \<Rightarrow> string \<Rightarrow> object \<Rightarrow> string option \<Rightarrow> state \<Rightarrow> reply option \<times> state" where
  "pipeline W url method customHeaders reqData s =
     (case resolveTarget W url s of
        (targetUrl, s1) \<Rightarrow>
          (case qualityLoop W targetUrl method customHeaders reqData 0 None s1 of
             (Inl None, s2) \<Rightarrow> (None, s2)
           | (Inl (Some (Exn details)), s2) \<Rightarrow>
               (Some (LambdaError 500 REQUEST_FAILED (Some details) (Some url)), s2)
           | (Inr None, s2) \<Rightarrow>
               (Some (LambdaError 500 REQUEST_FAILED
                        (Some ''Cannot read properties of undefined'') (Some url)), s2)
           | (Inr (Some v), s2) \<Rightarrow> (Some (respond W url method v), s2)))"

text \<open>\<^verbatim>\<open>executeRequest(req, res)\<close>: the reply sent, and the effects performed.\<close>

definition executeRequest :: "world \<Rightarrow> input \<Rightarrow> state \<Rightarrow> reply option \<times> state" where
  "executeRequest W req s =
     (let url = in_url req;
          method = (case in_method req of None \<Rightarrow> ''GET'' | Some m \<Rightarrow> m);
          customHeaders = (case in_headers req of None \<Rightarrow> [] | Some h \<Rightarrow> h);
          reqData = in_data req
      in if \<not> truthy url then (Some (LambdaError 400 MISSING_URL None None), s)
         else if toUpperCase method \<notin> set validMethods
         then (Some (LambdaError 400 INVALID_METHOD None None), s)
         else pipeline W (str_or_empty url) method customHeaders reqData s)"

section \<open>Counting physical requests\<close>

definition isRequest :: "event \<Rightarrow> bool" where
  "isRequest ev = (case ev of Request cfg answer \<Rightarrow> True | _ \<Rightarrow> False)"

definition requests :: "event list \<Rightarrow> nat" where
  "requests evs = length (filter isRequest evs)"

section \<open>The cookie discipline of a trace\<close>

text \<open>
  The \<^verbatim>\<open>Cookie\<close> property of \<^verbatim>\<open>{ ...customHeaders, ...(jar ? { Cookie: jar } : {}) }\<close>:
  the cookie in the jar when there is one, the caller's own \<^verbatim>\<open>Cookie\<close> header otherwise.
\<close>

definition expectedCookie :: "object \<Rightarrow> string \<Rightarrow> string option" where
  "expectedCookie customHeaders jar =
     map_of (spread (spread [] customHeaders) (if jar \<noteq> [] then [(''Cookie'', jar)] else []))
       ''Cookie''"

text \<open>
  \<open>stickyReplay customHeaders jar evs\<close> reads a trace with a cookie jar that is emptied
  whenever an inner attempt 0 opens (a new invocation of \<^verbatim>\<open>executeWithRetry\<close>) and that
  takes the \<^verbatim>\<open>name=value\<close> pairs of every response that sets cookies. It checks that
  each request carries exactly the \<^verbatim>\<open>Cookie\<close> header this jar gives, and returns the jar
  at the end, or \<open>None\<close> when a request carries another \<^verbatim>\<open>Cookie\<close> header.
\<close>

fun stickyReplay :: "object \<Rightarrow> string \<Rightarrow> event list \<Rightarrow> string option" where
  "stickyReplay customHeaders jar [] = Some jar"
| "stickyReplay customHeaders jar (Attempt i # evs) =
     stickyReplay customHeaders (if i = 0 then [] else jar) evs"
| "stickyReplay customHeaders jar (Request cfg answer # evs) =
     (if map_of (cfg_headers cfg) ''Cookie'' = expectedCookie customHeaders jar
      then stickyReplay customHeaders
             (case answer of
                Inl error \<Rightarrow> jar
              | Inr (response, ms) \<Rightarrow> nextStickyCookie (headers response) jar) evs
      else None)"
| "stickyReplay customHeaders jar (Sleep d # evs) = stickyReplay customHeaders jar evs"
| "stickyReplay customHeaders jar (Resolve u # evs) = stickyReplay customHeaders jar evs"
| "stickyReplay customHeaders jar (Browser u # evs) = stickyReplay customHeaders jar evs"
| "stickyReplay customHeaders jar (OEmbed u # evs) = stickyReplay customHeaders jar evs"

text \<open>Effects that are neither the opening of an attempt nor a request.\<close>

definition quiet :: "event list \<Rightarrow> bool" where
  "quiet evs =
     list_all (\<lambda>ev. case ev of Attempt i \<Rightarrow> False | Request cfg answer \<Rightarrow> False | _ \<Rightarrow> True) evs"

text \<open>\<open>quietly s s'\<close>: the state \<open>s'\<close> comes from \<open>s\<close> by quiet effects only.\<close>

definition quietly :: "state \<Rightarrow> state \<Rightarrow> bool" where
  "quietly s s' = (\<exists>evs. trace s' = trace s @ evs \<and> quiet evs)"

section \<open>Sample environments\<close>

text \<open>
  An environment in which every request fails with a connection error; the other
  sample environments change some of its fields.
\<close>

definition sampleWorld :: world where
  "sampleWorld =
     \<lparr>newURL = (\<lambda>s. if s = ''https://shop.example/''
                     then Some \<lparr>protocol = ''https:'', hostname = ''shop.example'',
                                pathname = ''/'', href = ''https://shop.example/''\<rparr>
                     else None),
      newURL2 = (\<lambda>s b. None),
      MAX_RETRIES = 3,
      USER_AGENTS = [''Mozilla/5.0 (Windows NT 10.0; Win64; x64) Chrome/120.0.0.0''],
      looksLikeBotOrBlockedHtml = (\<lambda>b u. False),
      hasUsefulMetadata = anyField,
      isAmazonUrl = (\<lambda>u. False),
      resolveFinalUrl = (\<lambda>t u. Inr u),
      extractMetadata = (\<lambda>b u. Inl (Exn ''unused'')),
      random = (\<lambda>t. 0),
      axios = (\<lambda>t c. Inl (Exn ''ECONNRESET'')),
      browserContent = (\<lambda>t u. None),
      oembed = (\<lambda>t u. Inl (Exn ''unused'')),
      encodeURIComponent = (\<lambda>u. Some u)\<rparr>"

text \<open>
  A shop that answers every request with status 403 and an ordinary page, and an
  extractor that finds the page's title. (What \<^verbatim>\<open>extractMetadata\<close> gives for this
  body; no other body occurs.)
\<close>

definition shopPage :: string where
  "shopPage = ''<html><head><title>Shop</title></head><body>Welcome</body></html>''"

definition shopResponse :: axiosResponse where
  "shopResponse =
     \<lparr>status = 403, statusText = ''Forbidden'',
      headers = [(''content-type'', HString ''text/html'')],
      data = Some shopPage, responseUrl = None, currentUrl = None\<rparr>"

definition shopWorld :: world where
  "shopWorld =
     sampleWorld\<lparr>
       axios := (\<lambda>t c. Inr (shopResponse, 12)),
       extractMetadata := (\<lambda>b u. Inr \<lparr>title = Some ''Shop'', description = None,
          images = \<lparr>logo = None, ogImage = None, favicon = None, appleTouchIcon = None\<rparr>\<rparr>)\<rparr>"

text \<open>A service that answers 503 with an empty body.\<close>

definition busyResponse :: axiosResponse where
  "busyResponse =
     \<lparr>status = 503, statusText = ''Service Unavailable'', headers = [],
      data = Some [], responseUrl = None, currentUrl = None\<rparr>"


text \<open>
  Modelled from the spec: \<^verbatim>\<open>looksLikeBotOrBlockedHtml\<close>, a helper that the controller
  imports and that is not among the sources. The spec: it lower-cases the body and
  searches for any of the tokens \<^verbatim>\<open>access denied\<close>, \<^verbatim>\<open>forbidden\<close>, \<^verbatim>\<open>blocked\<close>,
  \<^verbatim>\<open>captcha\<close>, \<^verbatim>\<open>error\<close>. Only the sample environment below uses it.
\<close>

definition tokenHeuristic :: "string \<Rightarrow> string \<Rightarrow> bool" where
  "tokenHeuristic body url =
     (let b = toLowerCase body
      in str_includes b ''access denied'' \<or> str_includes b ''forbidden''
         \<or> str_includes b ''blocked'' \<or> str_includes b ''captcha'' \<or> str_includes b ''error'')"

text \<open>
  A site that answers 200 with an article whose title has the word \<^verbatim>\<open>Error\<close>, and an
  extractor that finds title and description of that page.
\<close>

definition articlePage :: string where
  "articlePage = ''<html><head><title>Error handling in Rust</title></head></html>''"

definition articleMeta :: metadata where
  "articleMeta =
     \<lparr>title = Some ''Error handling in Rust'', description = Some ''A guide'',
      images = \<lparr>logo = None, ogImage = None, favicon = None, appleTouchIcon = None\<rparr>\<rparr>"

definition articleWorld :: world where
  "articleWorld =
     sampleWorld\<lparr>
       MAX_RETRIES := 1,
       looksLikeBotOrBlockedHtml := tokenHeuristic,
       axios := (\<lambda>t c. Inr (\<lparr>status = 200, statusText = ''OK'',
                               headers = [(''content-type'', HString ''text/html'')],
                               data = Some articlePage, responseUrl = None,
                               currentUrl = None\<rparr>, 30)),
       extractMetadata := (\<lambda>b u. Inr articleMeta)\<rparr>"

definition articleRequest :: input where
  "articleRequest =
     \<lparr>in_url = Some ''https://shop.example/'', in_method = None, in_headers = None,
      in_data = None\<rparr>"

text \<open>What the quality loop leaves behind, and the reply data, in the article's world.\<close>

definition articleVars :: vars where
  "articleVars =
     \<lparr>effectiveResult =
        \<lparr>status = 200, statusText = ''OK'',
         headers = [(''content-type'', HString ''text/html'')],
         data = Some articlePage, attempt = 1, durationMs = 30,
         finalUrl = ''https://shop.example/''\<rparr>,
      effectiveUrl = ''https://shop.example/'',
      v_metadata =
        Some (articleMeta\<lparr>images :=
                \<lparr>logo = None, ogImage = None,
                 favicon = Some ''https://shop.example/favicon.ico'',
                 appleTouchIcon = None\<rparr>\<rparr>),
      totalAttempt = 1\<rparr>"

definition articleData :: responseData where
  "articleData =
     \<lparr>rd_url = ''https://shop.example/'', rd_resolvedUrl = None, rd_method = ''GET'',
      rd_status = 200, rd_statusText = ''OK'', rd_domain = ''shop.example'',
      rd_contentType = HString ''text/html'', rd_responseTime = 30, rd_attempt = 1,
      rd_metadata = v_metadata articleVars\<rparr>"

section \<open>Properties of the candidate score\<close>

lemma scoreCandidate_raw:
  "scoreCandidate c =
     sourceScore (c_source c)
     + (if c_w c \<noteq> 0 then real_of_int (min (c_w c) 1600) / 10 else 0)
     + (if c_h c \<noteq> 0 then real_of_int (min (c_h c) 1600) / 10 else 0)
     - urlPenalty (toLowerCase (c_url c))
     + (case widthHint (toLowerCase (c_url c)) of Some ds \<Rightarrow> real (parseInt ds) / 10 | None \<Rightarrow> 0)
     + (case heightHint (toLowerCase (c_url c)) of Some ds \<Rightarrow> real (parseInt ds) / 10 | None \<Rightarrow> 0)"
  unfolding scoreCandidate_def Let_def sourceScore_def urlPenalty_def
  by (cases "c_source c") simp_all


text \<open>Masking the digits of a URL commutes with lower-casing it.\<close>

lemma lowerChar_cases:
  "lowerChar c = c \<or> lowerChar c \<in> set ''abcdefghijklmnopqrstuvwxyz''"
proof (cases "map_of (zip ''ABCDEFGHIJKLMNOPQRSTUVWXYZ'' ''abcdefghijklmnopqrstuvwxyz'') c")
  case None
  then show ?thesis by (simp add: lowerChar_def)
next
  case (Some d)
  then have "(c, d) \<in> set (zip ''ABCDEFGHIJKLMNOPQRSTUVWXYZ'' ''abcdefghijklmnopqrstuvwxyz'')"
    by (rule map_of_SomeD)
  then have "d \<in> set ''abcdefghijklmnopqrstuvwxyz''" by (rule set_zip_rightD)
  moreover have "lowerChar c = d" using Some by (simp add: lowerChar_def)
  ultimately show ?thesis by (simp only:) simp
qed

lemma lowerChar_digit: "isDigit c \<Longrightarrow> lowerChar c = c"
  unfolding isDigit_def by (simp, elim disjE) (simp_all add: lowerChar_def)

lemma isDigit_lowerChar: "isDigit (lowerChar c) = isDigit c"
proof (cases "isDigit c")
  case True
  then show ?thesis by (simp add: lowerChar_digit)
next
  case False
  from lowerChar_cases [of c] show ?thesis
  proof
    assume "lowerChar c = c"
    then show ?thesis by simp
  next
    assume "lowerChar c \<in> set ''abcdefghijklmnopqrstuvwxyz''"
    then have "\<not> isDigit (lowerChar c)" by (auto simp: isDigit_def)
    with False show ?thesis by simp
  qed
qed

lemma lowerChar_maskDigit: "lowerChar (maskDigit c) = maskDigit (lowerChar c)"
proof -
  have "lowerChar (CHR ''#'') = CHR ''#''" by (simp add: lowerChar_def)
  then show ?thesis by (simp add: maskDigit_def isDigit_lowerChar lowerChar_digit)
qed

lemma toLowerCase_mask: "toLowerCase (map maskDigit u) = map maskDigit (toLowerCase u)"
  by (simp add: toLowerCase_def lowerChar_maskDigit)

text \<open>Masking the digits does not change where a pattern without digits and \<^verbatim>\<open>#\<close> occurs.\<close>

lemma startsWith_mask:
  "\<forall>q \<in> set p. \<not> isDigit q \<and> q \<noteq> CHR ''#'' \<Longrightarrow>
     startsWith (map maskDigit s) p = startsWith s p"
proof (induction s p rule: startsWith.induct)
  case (3 c cs q qs)
  then have "(maskDigit c = q) = (c = q)" by (auto simp: maskDigit_def)
  with 3 show ?case by simp
qed simp_all

lemma str_includes_mask:
  "\<forall>q \<in> set p. \<not> isDigit q \<and> q \<noteq> CHR ''#'' \<Longrightarrow>
     str_includes (map maskDigit s) p = str_includes s p"
proof (induction s)
  case (Cons c cs)
  from startsWith_mask [OF Cons.prems, of "c # cs"] Cons show ?case by simp
qed simp

lemma endsWith_mask:
  "\<forall>q \<in> set p. \<not> isDigit q \<and> q \<noteq> CHR ''#'' \<Longrightarrow>
     endsWith (map maskDigit s) p = endsWith s p"
  unfolding endsWith_def rev_map by (rule startsWith_mask) simp

lemma urlPenalty_mask: "urlPenalty (map maskDigit u) = urlPenalty u"
proof -
  have "str_includes (map maskDigit u) ''favicon'' = str_includes u ''favicon''"
    by (rule str_includes_mask) (simp add: isDigit_def)
  moreover have "str_includes (map maskDigit u) ''sprite'' = str_includes u ''sprite''"
    by (rule str_includes_mask) (simp add: isDigit_def)
  moreover have "str_includes (map maskDigit u) ''logo'' = str_includes u ''logo''"
    by (rule str_includes_mask) (simp add: isDigit_def)
  moreover have "endsWith (map maskDigit u) ''.svg'' = endsWith u ''.svg''"
    by (rule endsWith_mask) (simp add: isDigit_def)
  ultimately show ?thesis by (simp only: urlPenalty_def)
qed

text \<open>A URL without digits has no width and no height to read.\<close>

lemma isDigit_maskDigit: "\<not> isDigit (maskDigit c)"
  by (simp add: maskDigit_def isDigit_def)

lemma takeWhile_mask: "takeWhile isDigit (drop k (map maskDigit u)) = []"
proof (cases "drop k u")
  case Nil
  then show ?thesis by (simp add: drop_map)
next
  case (Cons c cs)
  then show ?thesis by (simp add: drop_map isDigit_maskDigit)
qed

lemma paramDigits_mask: "paramDigits names (map maskDigit u) = None"
  by (induction names) (simp_all add: takeWhile_mask)

lemma matchParam_mask: "matchParam names (map maskDigit u) = None"
  by (induction u) (simp_all add: paramDigits_mask)

lemma matchWidthSuffix_mask: "matchWidthSuffix (map maskDigit u) = None"
  by (induction u) (simp_all add: isDigit_maskDigit)

lemma scoreCandidate_sizeless:
  "scoreCandidate (sizeless c) = sourceScore (c_source c) - urlPenalty (toLowerCase (c_url c))"
  by (simp add: scoreCandidate_raw sizeless_def toLowerCase_mask urlPenalty_mask
      widthHint_def heightHint_def matchParam_mask matchWidthSuffix_mask)


lemma scoreCandidate_parts:
  "scoreCandidate c =
     sourceScore (c_source c) + sizeBonus c - urlPenalty (toLowerCase (c_url c))"
  by (simp add: sizeBonus_def scoreCandidate_sizeless)








section \<open>Properties of URL resolution\<close>

lemma startsWith_append: "startsWith (p @ s) p"
  by (induction p) simp_all

lemma resolveUrl_absolute:
  "startsWith r ''http://'' \<or> startsWith r ''https://'' \<Longrightarrow> resolveUrl R r b = Some r"
proof -
  assume a: "startsWith r ''http://'' \<or> startsWith r ''https://''"
  then have "r \<noteq> []" by auto
  with a show ?thesis by (simp add: resolveUrl_def)
qed

lemma resolveUrl_protocol_relative:
  assumes "startsWith x ''//''" and "newURL R b = Some u"
    and "protocol u = ''http:'' \<or> protocol u = ''https:''"
  shows "\<exists>r. resolveUrl R x b = Some r \<and> (startsWith r ''http://'' \<or> startsWith r ''https://'')"
proof -
  obtain rest where x: "x = CHR ''/'' # CHR ''/'' # rest"
    using assms(1) by (cases x; cases "tl x") auto
  show ?thesis using assms(2,3) by (auto simp: resolveUrl_def x)
qed

text \<open>
  C9 as stated fails for a base URL whose scheme is neither \<^verbatim>\<open>http\<close> nor \<^verbatim>\<open>https\<close>: a
  protocol-relative URL gets the base's scheme prepended and is returned without being
  parsed, and the second resolution then parses and normalises it.
\<close>

theorem resolveUrl_not_idempotent:
  "resolveUrl ftpSample ''//H/a'' ''ftp://h/'' = Some ''ftp://H/a''
   \<and> resolveUrl ftpSample ''ftp://H/a'' ''ftp://h/'' = Some ''ftp://h/a''
   \<and> resolveUrl ftpSample ''ftp://H/a'' ''ftp://h/'' \<noteq> resolveUrl ftpSample ''//H/a'' ''ftp://h/''"
  by (simp add: resolveUrl_def ftpSample_def)

text \<open>
  C9, amended. Let the scheme of the base \<open>b\<close> be \<^verbatim>\<open>http\<close> or \<^verbatim>\<open>https\<close>, as that of a
  fetched page is, and let the URL class parse each of its own serialisations to itself:
  whenever \<^verbatim>\<open>new URL(y, b)\<close> succeeds, its \<^verbatim>\<open>href\<close> is not empty, does not begin with
  \<^verbatim>\<open>//\<close>, and \<^verbatim>\<open>new URL(href, b).href\<close> is that \<^verbatim>\<open>href\<close> again. Then for every \<open>x\<close>,
  absolute, protocol-relative or relative, whenever \<open>resolveUrl x b\<close> returns a URL,
  resolving that URL against \<open>b\<close> again returns it unchanged.
\<close>

theorem resolveUrl_idempotent_http_base:
  assumes base: "\<And>u. newURL R b = Some u \<Longrightarrow> protocol u = ''http:'' \<or> protocol u = ''https:''"
    and reparse: "\<And>y v. newURL2 R y b = Some v \<Longrightarrow>
           href v \<noteq> [] \<and> \<not> startsWith (href v) ''//''
           \<and> (\<exists>v'. newURL2 R (href v) b = Some v' \<and> href v' = href v)"
    and first: "resolveUrl R x b = Some r"
  shows "resolveUrl R r b = Some r"
proof -
  consider (absolute) "startsWith x ''http://'' \<or> startsWith x ''https://''"
    | (relative_protocol) "\<not> (startsWith x ''http://'' \<or> startsWith x ''https://'')"
        "startsWith x ''//''"
    | (relative) "\<not> (startsWith x ''http://'' \<or> startsWith x ''https://'')"
        "\<not> startsWith x ''//''"
    by blast
  then show ?thesis
  proof cases
    case absolute
    with first have "r = x" by (auto simp: resolveUrl_def split: if_splits)
    with absolute show ?thesis by (simp add: resolveUrl_absolute)
  next
    case relative_protocol
    with first obtain u where u: "newURL R b = Some u" and r: "r = protocol u @ x"
      by (auto simp: resolveUrl_def split: if_splits option.splits)
    obtain rest where x: "x = CHR ''/'' # CHR ''/'' # rest"
      using relative_protocol(2) by (cases x; cases "tl x") auto
    from base [OF u] have "startsWith r ''http://'' \<or> startsWith r ''https://''"
      by (auto simp: r x)
    then show ?thesis by (rule resolveUrl_absolute)
  next
    case relative
    with first obtain v where v: "newURL2 R x b = Some v" and r: "r = href v"
      by (auto simp: resolveUrl_def split: if_splits option.splits)
    from reparse [OF v] obtain v' where
      nonempty: "r \<noteq> []" and slashes: "\<not> startsWith r ''//''"
      and again: "newURL2 R r b = Some v'" "href v' = r"
      unfolding r by blast
    show ?thesis
    proof (cases "startsWith r ''http://'' \<or> startsWith r ''https://''")
      case True
      then show ?thesis by (rule resolveUrl_absolute)
    next
      case False
      with nonempty slashes again show ?thesis by (simp add: resolveUrl_def)
    qed
  qed
qed

theorem resolveUrl_idempotent_http_base_witness:
  "resolveUrl httpSample ''img/a.png'' ''https://h/p'' = Some ''https://h/img/a.png''
   \<and> resolveUrl httpSample ''https://h/img/a.png'' ''https://h/p'' = Some ''https://h/img/a.png''
   \<and> resolveUrl httpSample ''MAILTO:a@h'' ''https://h/p'' = Some ''mailto:a@h''
   \<and> resolveUrl httpSample ''mailto:a@h'' ''https://h/p'' = Some ''mailto:a@h''"
proof -
  have base: "protocol u = ''http:'' \<or> protocol u = ''https:''"
    if "newURL httpSample ''https://h/p'' = Some u" for u
  proof -
    from that have "protocol u = ''https:''" by (simp add: httpSample_def) (erule subst, simp)
    then show ?thesis ..
  qed
  have reparse: "href v \<noteq> [] \<and> \<not> startsWith (href v) ''//''
      \<and> (\<exists>v'. newURL2 httpSample (href v) ''https://h/p'' = Some v' \<and> href v' = href v)"
    if "newURL2 httpSample y ''https://h/p'' = Some v" for y v
  proof -
    from that have "href v = ''https://h/img/a.png'' \<or> href v = ''mailto:a@h''"
      by (simp add: httpSample_def split: if_splits) (erule subst, simp)+
    then show ?thesis
    proof
      assume h: "href v = ''https://h/img/a.png''"
      show ?thesis unfolding h by (simp add: httpSample_def)
    next
      assume h: "href v = ''mailto:a@h''"
      show ?thesis unfolding h by (simp add: httpSample_def)
    qed
  qed
  have relative: "resolveUrl httpSample ''img/a.png'' ''https://h/p'' = Some ''https://h/img/a.png''"
    by (simp add: resolveUrl_def httpSample_def)
  have mail: "resolveUrl httpSample ''MAILTO:a@h'' ''https://h/p'' = Some ''mailto:a@h''"
    by (simp add: resolveUrl_def httpSample_def)
  note again1 = resolveUrl_idempotent_http_base [of httpSample "''https://h/p''", OF base reparse relative]
  note again2 = resolveUrl_idempotent_http_base [of httpSample "''https://h/p''", OF base reparse mail]
  from relative again1 mail again2 show ?thesis by (intro conjI)
qed

section \<open>Properties of the platform merge\<close>

lemma images_youtubeBlock: "images (youtubeBlock ov r) = images r"
  by (simp add: youtubeBlock_def Let_def)

lemma images_spotifyBlock: "images (spotifyBlock ov r) = images r"
  by (simp add: spotifyBlock_def Let_def)

lemma title_fillImages: "title (fillImages ov r) = title r"
  and description_fillImages: "description (fillImages ov r) = description r"
  by (simp_all add: fillImages_def)

lemma title_youtubeBlock:
  "title (youtubeBlock ov r) =
     (if toLowerCase (str_or_empty (title r)) = ''- youtube''
         \<or> toLowerCase (str_or_empty (title r)) = ''youtube'' \<or> \<not> truthy (title r)
      then js_nullish (title ov) (title r) else title r)"
  by (simp add: youtubeBlock_def Let_def)

lemma title_spotifyBlock:
  "title (spotifyBlock ov r) =
     (if (str_includes (toLowerCase (str_or_empty (title r))) ''spotify''
          \<and> str_includes (toLowerCase (str_or_empty (title r))) ''web player'')
         \<or> \<not> truthy (title r)
      then js_nullish (title ov) (title r) else title r)"
  by (simp add: spotifyBlock_def Let_def)

lemma description_youtubeBlock:
  "description (youtubeBlock ov r) =
     (if str_includes (toLowerCase (str_or_empty (description r)))
           ''enjoy the videos and music you love'' \<or> \<not> truthy (description r)
      then js_nullish (description ov) (description r) else description r)"
  by (simp add: youtubeBlock_def Let_def)

lemma description_spotifyBlock:
  "description (spotifyBlock ov r) =
     (if \<not> truthy (description r)
      then js_nullish (description ov) (description r) else description r)"
  by (simp add: spotifyBlock_def Let_def)

lemma merge_title:
  assumes "truthy (title b)" and "\<not> genericTitle url (title b)"
  shows "title (mergeMetadata (Some b) ov url) = title b"
proof (cases ov)
  case None
  with assms(1) show ?thesis by (simp add: mergeMetadata_def resultOfBase_def js_or_def)
next
  case (Some v)
  have r: "title (resultOfBase (Some b)) = title b"
    using assms(1) by (simp add: resultOfBase_def js_or_def)
  show ?thesis
    using assms r
    by (auto simp add: Some mergeMetadata_def Let_def title_fillImages title_youtubeBlock
        title_spotifyBlock genericTitle_def)
qed

lemma merge_description:
  assumes "truthy (description b)" and "\<not> genericDescription url (description b)"
  shows "description (mergeMetadata (Some b) ov url) = description b"
proof (cases ov)
  case None
  with assms(1) show ?thesis by (simp add: mergeMetadata_def resultOfBase_def js_or_def)
next
  case (Some v)
  have r: "description (resultOfBase (Some b)) = description b"
    using assms(1) by (simp add: resultOfBase_def js_or_def)
  show ?thesis
    using assms r
    by (auto simp add: Some mergeMetadata_def Let_def description_fillImages description_youtubeBlock
        description_spotifyBlock genericDescription_def)
qed

lemma merge_images_some:
  "images (mergeMetadata (Some b) (Some v) url) =
     \<lparr>logo = fillImage (js_or (logo (images b)) None) (logo (images v)),
      ogImage = fillImage (js_or (ogImage (images b)) None) (ogImage (images v)),
      favicon = fillImage (js_or (favicon (images b)) None) (favicon (images v)),
      appleTouchIcon =
        fillImage (js_or (appleTouchIcon (images b)) None) (appleTouchIcon (images v))\<rparr>"
  by (simp add: mergeMetadata_def Let_def fillImages_def images_youtubeBlock images_spotifyBlock
      resultOfBase_def)

lemma merge_images_none:
  "images (mergeMetadata (Some b) None url) =
     \<lparr>logo = js_or (logo (images b)) None,
      ogImage = js_or (ogImage (images b)) None,
      favicon = js_or (favicon (images b)) None,
      appleTouchIcon = js_or (appleTouchIcon (images b)) None\<rparr>"
  by (simp add: mergeMetadata_def resultOfBase_def)

lemma merge_keeps_logo:
  "truthy (logo (images b)) \<Longrightarrow>
     logo (images (mergeMetadata (Some b) ov url)) = logo (images b)"
  by (cases ov) (simp_all add: merge_images_some merge_images_none js_or_def fillImage_def)

lemma merge_keeps_ogImage:
  "truthy (ogImage (images b)) \<Longrightarrow>
     ogImage (images (mergeMetadata (Some b) ov url)) = ogImage (images b)"
  by (cases ov) (simp_all add: merge_images_some merge_images_none js_or_def fillImage_def)

lemma merge_keeps_favicon:
  "truthy (favicon (images b)) \<Longrightarrow>
     favicon (images (mergeMetadata (Some b) ov url)) = favicon (images b)"
  by (cases ov) (simp_all add: merge_images_some merge_images_none js_or_def fillImage_def)

lemma merge_keeps_appleTouchIcon:
  "truthy (appleTouchIcon (images b)) \<Longrightarrow>
     appleTouchIcon (images (mergeMetadata (Some b) ov url)) = appleTouchIcon (images b)"
  by (cases ov) (simp_all add: merge_images_some merge_images_none js_or_def fillImage_def)

text \<open>
  C8. For every base record, every override (present or \<^verbatim>\<open>null\<close>) and every URL:
  a non-empty local title that does not match the generic title pattern of the URL's
  platform is the title of the result, a non-empty local description that does not match
  the generic description pattern is the description of the result, and each of the four
  image fields that is non-empty in the base is unchanged in the result (so a value of
  the override is taken only where the base field is empty).
\<close>

theorem mergeMetadata_keeps_specific:
  "(truthy (title b) \<and> \<not> genericTitle url (title b) \<longrightarrow>
      title (mergeMetadata (Some b) ov url) = title b)
   \<and> (truthy (description b) \<and> \<not> genericDescription url (description b) \<longrightarrow>
      description (mergeMetadata (Some b) ov url) = description b)
   \<and> (truthy (ogImage (images b)) \<longrightarrow>
      ogImage (images (mergeMetadata (Some b) ov url)) = ogImage (images b))
   \<and> (truthy (logo (images b)) \<longrightarrow>
      logo (images (mergeMetadata (Some b) ov url)) = logo (images b))
   \<and> (truthy (favicon (images b)) \<longrightarrow>
      favicon (images (mergeMetadata (Some b) ov url)) = favicon (images b))
   \<and> (truthy (appleTouchIcon (images b)) \<longrightarrow>
      appleTouchIcon (images (mergeMetadata (Some b) ov url)) = appleTouchIcon (images b))"
  using merge_title [of b url ov] merge_description [of b url ov]
    merge_keeps_ogImage [of b ov url] merge_keeps_logo [of b ov url]
    merge_keeps_favicon [of b ov url] merge_keeps_appleTouchIcon [of b ov url]
  by blast

theorem mergeMetadata_keeps_specific_witness:
  "truthy (title localPage)
   \<and> \<not> genericTitle ''https://www.youtube.com/watch?v=1'' (title localPage)
   \<and> truthy (description localPage)
   \<and> \<not> genericDescription ''https://www.youtube.com/watch?v=1'' (description localPage)
   \<and> truthy (ogImage (images localPage)) \<and> truthy (logo (images localPage))
   \<and> truthy (favicon (images localPage)) \<and> truthy (appleTouchIcon (images localPage))
   \<and> mergeMetadata (Some localPage) (Some platformPage) ''https://www.youtube.com/watch?v=1''
       = localPage"
proof -
  have hyps: "truthy (title localPage)
      \<and> \<not> genericTitle ''https://www.youtube.com/watch?v=1'' (title localPage)
      \<and> truthy (description localPage)
      \<and> \<not> genericDescription ''https://www.youtube.com/watch?v=1'' (description localPage)
      \<and> truthy (ogImage (images localPage)) \<and> truthy (logo (images localPage))
      \<and> truthy (favicon (images localPage)) \<and> truthy (appleTouchIcon (images localPage))"
    by (simp add: localPage_def truthy_def genericTitle_def genericDescription_def
        isYouTubeUrl_def isSpotifyUrl_def toLowerCase_def lowerChar_def str_or_empty_def)
  from hyps
    mergeMetadata_keeps_specific [of localPage "''https://www.youtube.com/watch?v=1''" "Some platformPage"]
  have "mergeMetadata (Some localPage) (Some platformPage) ''https://www.youtube.com/watch?v=1''
       = localPage"
    by (intro metadata.equality images.equality) simp_all
  with hyps show ?thesis by blast
qed

section \<open>Properties of the backoff delay\<close>

lemma pow2_pos: "0 < pow2 e"
  by (simp add: pow2_def)

lemma roundHalfEven_ge: "of_int m \<le> t \<Longrightarrow> m \<le> roundHalfEven t"
proof -
  assume "of_int m \<le> t"
  then have "m \<le> \<lfloor>t\<rfloor>" by (simp add: le_floor_iff)
  then show ?thesis by (simp add: roundHalfEven_def Let_def)
qed

lemma roundHalfEven_le: "t \<le> of_int m \<Longrightarrow> roundHalfEven t \<le> m"
proof (cases "t = of_int m")
  case True
  then show ?thesis by (simp add: roundHalfEven_def Let_def)
next
  case False
  assume "t \<le> of_int m"
  with False have "t < of_int m" by simp
  then have "\<lfloor>t\<rfloor> < m" by (simp add: floor_less_iff)
  then show ?thesis by (simp add: roundHalfEven_def Let_def)
qed

lemma binade_le:
  assumes "0 < x" and "x < 2 ^ 53"
  shows "binade x \<le> 52"
proof (cases "1 \<le> x")
  case True
  have "nat \<lfloor>x\<rfloor> < 2 ^ 53"
  proof -
    have "\<lfloor>x\<rfloor> < 2 ^ 53" using assms(2) by (simp add: floor_less_iff)
    then show ?thesis using True by (simp add: nat_less_iff)
  qed
  then have "floorlog 2 (nat \<lfloor>x\<rfloor>) \<le> 53" by (intro floorlog_leI) simp_all
  with True show ?thesis by (simp add: binade_def)
next
  case False
  then show ?thesis by (simp add: binade_def)
qed

lemma quantum_le_0:
  assumes "\<bar>x\<bar> < 2 ^ 53" and "x \<noteq> 0"
  shows "quantum x \<le> 0"
  using binade_le [of "\<bar>x\<bar>"] assms by (simp add: quantum_def)

text \<open>
  Rounding does not cross an integer: a value below \<open>2 ^ 53\<close> in magnitude that lies
  between two integers is rounded to a value between them.
\<close>

lemma fl_between_integers:
  assumes "of_int a \<le> y" and "y \<le> of_int b" and "\<bar>y\<bar> < 2 ^ 53"
  shows "of_int a \<le> fl y \<and> fl y \<le> of_int b"
proof (cases "y = 0")
  case True
  with assms show ?thesis by (simp add: fl_def)
next
  case False
  define n where "n = nat (- quantum y)"
  from quantum_le_0 [OF assms(3) False] have q: "pow2 (quantum y) = 1 / 2 ^ n"
    by (auto simp: pow2_def n_def)
  have lo: "a * 2 ^ n \<le> roundHalfEven (y * 2 ^ n)"
    by (rule roundHalfEven_ge) (use assms(1) in simp)
  have hi: "roundHalfEven (y * 2 ^ n) \<le> b * 2 ^ n"
    by (rule roundHalfEven_le) (use assms(2) in simp)
  have "fl y = of_int (roundHalfEven (y * 2 ^ n)) / 2 ^ n"
    using False by (simp add: fl_def q)
  moreover have "of_int a \<le> (of_int (roundHalfEven (y * 2 ^ n)) :: real) / 2 ^ n"
  proof -
    from lo have "(of_int (a * 2 ^ n) :: real) \<le> of_int (roundHalfEven (y * 2 ^ n))"
      by (simp only: of_int_le_iff)
    then show ?thesis by (simp add: pos_le_divide_eq)
  qed
  moreover have "(of_int (roundHalfEven (y * 2 ^ n)) :: real) / 2 ^ n \<le> of_int b"
  proof -
    from hi have "(of_int (roundHalfEven (y * 2 ^ n)) :: real) \<le> of_int (b * 2 ^ n)"
      by (simp only: of_int_le_iff)
    then show ?thesis by (simp add: pos_divide_le_eq)
  qed
  ultimately show ?thesis by simp
qed

lemma delay_integer:
  "\<exists>d :: int. min (1000 * 2 ^ k) (10000 :: real) = of_int d \<and> 0 \<le> d \<and> d \<le> 10000"
proof (cases "(1000 * 2 ^ k :: real) \<le> 10000")
  case True
  define d :: int where "d = 1000 * 2 ^ k"
  have e: "(1000 * 2 ^ k :: real) = of_int d" by (simp add: d_def)
  from True have "(of_int d :: real) \<le> of_int 10000" unfolding e by simp
  then have "d \<le> 10000" by (simp only: of_int_le_iff)
  moreover have "0 \<le> d" by (simp add: d_def)
  moreover have "min (1000 * 2 ^ k) (10000 :: real) = of_int d"
    using True e by (simp only: min_def if_True)
  ultimately show ?thesis by blast
next
  case False
  then have "min (1000 * 2 ^ k) (10000 :: real) = of_int 10000"
    by (simp add: min_def)
  then show ?thesis by (intro exI [of _ 10000]) simp
qed

lemma pow2_neg: "pow2 (- numeral n) = 1 / 2 ^ numeral n"
  by (simp add: pow2_def)

lemma fl_jitter_product: "fl ((1 - 1 / 2 ^ 52) * 1000) = 1000 - 1 / 2 ^ 42"
proof -
  have f: "\<lfloor>(1 - 1 / 2 ^ 52) * 1000 :: real\<rfloor> = 999"
    by (simp add: floor_eq_iff)
  have l: "floorlog 2 999 = 10"
    by (simp add: compute_floorlog)
  have b: "binade \<bar>(1 - 1 / 2 ^ 52) * 1000 :: real\<bar> = 9"
    using f by (simp add: binade_def l)
  have q: "quantum ((1 - 1 / 2 ^ 52) * 1000) = - 43"
    by (simp only: quantum_def b)
  have g: "\<lfloor>(1 - 1 / 2 ^ 52) * 1000 * 2 ^ 43 :: real\<rfloor> = 1000 * 2 ^ 43 - 2"
    by (simp add: floor_eq_iff)
  have r: "roundHalfEven ((1 - 1 / 2 ^ 52) * 1000 * 2 ^ 43) = 1000 * 2 ^ 43 - 2"
    unfolding roundHalfEven_def Let_def g by simp
  have "(1 - 1 / 2 ^ 52) * 1000 / pow2 (- 43) = (1 - 1 / 2 ^ 52) * 1000 * 2 ^ 43"
    unfolding pow2_neg by simp
  then have "fl ((1 - 1 / 2 ^ 52) * 1000) = of_int (1000 * 2 ^ 43 - 2) * (1 / 2 ^ 43)"
    unfolding fl_def q pow2_neg by (simp only: r) simp
  then show ?thesis by simp
qed

lemma fl_sum: "fl (8000 + (1000 - 1 / 2 ^ 42)) = 9000"
proof -
  have f: "\<lfloor>8000 + (1000 - 1 / 2 ^ 42) :: real\<rfloor> = 8999"
    by (simp add: floor_eq_iff)
  have l: "floorlog 2 8999 = 14"
    by (simp add: compute_floorlog)
  have b: "binade \<bar>8000 + (1000 - 1 / 2 ^ 42) :: real\<bar> = 13"
    using f by (simp add: binade_def l)
  have q: "quantum (8000 + (1000 - 1 / 2 ^ 42)) = - 39"
    by (simp only: quantum_def b)
  have g: "\<lfloor>(8000 + (1000 - 1 / 2 ^ 42)) * 2 ^ 39 :: real\<rfloor> = 9000 * 2 ^ 39 - 1"
    by (simp add: floor_eq_iff)
  have r: "roundHalfEven ((8000 + (1000 - 1 / 2 ^ 42)) * 2 ^ 39) = 9000 * 2 ^ 39"
    unfolding roundHalfEven_def Let_def g by simp
  have "(8000 + (1000 - 1 / 2 ^ 42)) / pow2 (- 39) = (8000 + (1000 - 1 / 2 ^ 42)) * 2 ^ 39"
    unfolding pow2_neg by simp
  then have "fl (8000 + (1000 - 1 / 2 ^ 42)) = of_int (9000 * 2 ^ 39) * (1 / 2 ^ 39)"
    unfolding fl_def q pow2_neg by (simp only: r) simp
  then show ?thesis by simp
qed

text \<open>
  C7 as stated fails on the upper end: with the jitter \<open>1 - 2 ^ -52\<close>, a value in
  \<open>[0, 1)\<close> that \<^verbatim>\<open>Math.random()\<close> can return, the product with 1000 is rounded to
  \<open>1000 - 2 ^ -42\<close> and the sum \<open>8000 + (1000 - 2 ^ -42)\<close> is rounded to \<open>9000\<close>, the end
  point that the half-open interval excludes.
\<close>

theorem calculateBackoffDelay_reaches_upper_end:
  "(0 :: real) \<le> 1 - 1 / 2 ^ 52 \<and> (1 - 1 / 2 ^ 52 :: real) < 1
   \<and> calculateBackoffDelay 3 (1 - 1 / 2 ^ 52) = 9000
   \<and> \<not> calculateBackoffDelay 3 (1 - 1 / 2 ^ 52) < min (1000 * 2 ^ 3) 10000 + 1000"
proof -
  have "calculateBackoffDelay 3 (1 - 1 / 2 ^ 52) = fl (8000 + fl ((1 - 1 / 2 ^ 52) * 1000))"
    unfolding calculateBackoffDelay_def Let_def by simp
  then have "calculateBackoffDelay 3 (1 - 1 / 2 ^ 52) = 9000"
    by (simp only: fl_jitter_product fl_sum)
  then show ?thesis by simp
qed

text \<open>
  C7, amended. For every attempt index \<open>k\<close> and every jitter value in \<open>[0, 1)\<close> the delay
  lies in the closed interval from \<open>min (1000 * 2 ^ k) 10000\<close> to that value plus \<open>1000\<close>.
\<close>

theorem calculateBackoffDelay_bounds:
  assumes "0 \<le> jitter" and "jitter < 1"
  shows "min (1000 * 2 ^ k) 10000 \<le> calculateBackoffDelay k jitter
       \<and> calculateBackoffDelay k jitter \<le> min (1000 * 2 ^ k) 10000 + 1000"
proof -
  obtain d :: int where d: "min (1000 * 2 ^ k) (10000 :: real) = of_int d" "0 \<le> d" "d \<le> 10000"
    using delay_integer by blast
  have j: "of_int 0 \<le> fl (jitter * 1000) \<and> fl (jitter * 1000) \<le> of_int 1000"
    by (rule fl_between_integers) (use assms in \<open>simp_all add: abs_if\<close>)
  have "of_int d \<le> fl (of_int d + fl (jitter * 1000))
      \<and> fl (of_int d + fl (jitter * 1000)) \<le> of_int (d + 1000)"
  proof (rule fl_between_integers)
    show "of_int d \<le> of_int d + fl (jitter * 1000)" using j by simp
    show "of_int d + fl (jitter * 1000) \<le> of_int (d + 1000)" using j by simp
    have "\<bar>of_int d + fl (jitter * 1000)\<bar> \<le> (11000 :: real)"
      using j d by (simp add: abs_if)
    then show "\<bar>of_int d + fl (jitter * 1000)\<bar> < 2 ^ 53" by simp
  qed
  then show ?thesis
    by (simp add: calculateBackoffDelay_def Let_def d(1))
qed

theorem calculateBackoffDelay_bounds_witness:
  "(0::real) \<le> 1 / 2 \<and> (1 / 2 :: real) < 1
   \<and> min (1000 * 2 ^ 3) 10000 \<le> calculateBackoffDelay 3 (1 / 2)
   \<and> calculateBackoffDelay 3 (1 / 2) \<le> min (1000 * 2 ^ 3) 10000 + 1000"
proof -
  have lo: "(0::real) \<le> 1 / 2" and hi: "(1 / 2 :: real) < 1" by simp_all
  from calculateBackoffDelay_bounds [OF lo hi, of 3] lo hi show ?thesis by simp
qed

section \<open>Properties of input validation\<close>



section \<open>Properties of a retry attempt\<close>

lemma afterResponse_cases:
  "afterResponse W url i stickyCookie lastError response ms s =
     (let v = judge W response (finalUrlOf response url)
      in if int i \<noteq> int (MAX_RETRIES W) - 1 \<and> \<not> metaOk v
            \<and> (status response = 403 \<or> status response = 429 \<or> status response = 503
               \<or> blockedHtml v \<or> (domainIsBlinkit v \<and> looksBlocked v \<and> \<not> upstreamOk v))
         then (Again (nextStickyCookie (headers response) stickyCookie) lastError,
               backoffSleep W i s)
         else (Return \<lparr>status = status response, statusText = statusText response,
                        headers = headers response, data = data response,
                        attempt = i + 1, durationMs = ms,
                        finalUrl = finalUrlOf response url\<rparr>, s))"
proof -
  have up: "upstreamOk (judge W response u) = (200 \<le> status response \<and> status response < 300)" for u
    by (simp add: judge_def Let_def)
  have sr: "shouldRetry (judge W response u) =
      ((\<not> upstreamOk (judge W response u)
          \<and> (status response = 403 \<or> status response = 429 \<or> status response = 503))
       \<or> (domainIsBlinkit (judge W response u) \<and> looksBlocked (judge W response u)
            \<and> \<not> metaOk (judge W response u))
       \<or> (blockedHtml (judge W response u) \<and> \<not> metaOk (judge W response u)))" for u
    by (simp add: judge_def Let_def)
  show ?thesis
    unfolding afterResponse_def Let_def
    apply (subst sr)
    apply (simp only: up)
    apply (auto)
    done
qed


lemma attemptBody_response:
  assumes "generateHeaders W url (getRandomUserAgent W (clock s)) = Inr hs"
    and "axios W (clock s + 1) (buildConfig url method customHeaders reqData stickyCookie hs)
           = Inr (response, ms)"
  shows "attemptBody W url method customHeaders reqData i stickyCookie lastError s =
           afterResponse W url i stickyCookie lastError response ms
             (emit (Request (buildConfig url method customHeaders reqData stickyCookie hs)
                      (Inr (response, ms)))
                (tick (tick (emit (Attempt i) s))))"
  using assms
  by (simp add: attemptBody_def Let_def emit_def tick_def)

text \<open>
  C1 as stated fails: on the first of three attempts the shop answers 403, which is one
  of the retry statuses and not a success status, so the claim has the orchestrator
  retry; the page yields a title, \<^verbatim>\<open>metaOk\<close> holds, and the attempt returns its result.
\<close>

theorem blocked_status_returned:
  "int 0 \<noteq> int (MAX_RETRIES shopWorld) - 1
   \<and> status shopResponse = 403
   \<and> \<not> (200 \<le> status shopResponse \<and> status shopResponse < 300)
   \<and> fst (attemptBody shopWorld ''https://shop.example/'' ''GET'' [] None 0 [] None
            \<lparr>clock = 0, trace = []\<rparr>)
       = Return \<lparr>status = 403, statusText = ''Forbidden'',
                 headers = [(''content-type'', HString ''text/html'')],
                 data = Some shopPage, attempt = 1, durationMs = 12,
                 finalUrl = ''https://shop.example/''\<rparr>"
  by (simp add: attemptBody_def afterResponse_cases Let_def shopWorld_def sampleWorld_def
      shopResponse_def getRandomUserAgent_def generateHeaders_def emit_def tick_def buildConfig_def
      judge_def seemsHtml_def isHtmlContent_def finalUrlOf_def truthy_def str_or_empty_def
      anyField_def toLowerCase_def lowerChar_def shopPage_def)

text \<open>
  C1, amended. For every attempt that received a response, the orchestrator retries
  (backs off and goes on with the cookie of this response) exactly when it is not the
  final attempt and \<^verbatim>\<open>metaOk\<close> is false and one of these holds: the status is 403, 429
  or 503; the bot-block heuristic fires on an HTML-like body; the final URL is on
  blinkit, the body has a block token and the status is not in \<open>[200, 300)\<close>. In every
  other case the attempt returns its result at once, with no further effect.
\<close>

theorem retry_exactly_when:
  "(let v = judge W response (finalUrlOf response url);
        retry = (int i \<noteq> int (MAX_RETRIES W) - 1 \<and> \<not> metaOk v
                 \<and> (status response = 403 \<or> status response = 429 \<or> status response = 503
                    \<or> blockedHtml v
                    \<or> (domainIsBlinkit v \<and> looksBlocked v \<and> \<not> upstreamOk v)))
    in (retry \<longrightarrow>
          afterResponse W url i stickyCookie lastError response ms s =
            (Again (nextStickyCookie (headers response) stickyCookie) lastError,
             backoffSleep W i s))
       \<and> (\<not> retry \<longrightarrow>
          afterResponse W url i stickyCookie lastError response ms s =
            (Return \<lparr>status = status response, statusText = statusText response,
                      headers = headers response, data = data response,
                      attempt = i + 1, durationMs = ms,
                      finalUrl = finalUrlOf response url\<rparr>, s)))"
  by (simp add: afterResponse_cases Let_def)

theorem retry_exactly_when_witness:
  "afterResponse sampleWorld ''https://shop.example/'' 0 [] None busyResponse 7
       \<lparr>clock = 2, trace = []\<rparr>
     = (Again [] None, backoffSleep sampleWorld 0 \<lparr>clock = 2, trace = []\<rparr>)
   \<and> afterResponse sampleWorld ''https://shop.example/'' 2 [] None busyResponse 7
       \<lparr>clock = 2, trace = []\<rparr>
     = (Return \<lparr>status = 503, statusText = ''Service Unavailable'', headers = [],
                data = Some [], attempt = 3, durationMs = 7,
                finalUrl = ''https://shop.example/''\<rparr>, \<lparr>clock = 2, trace = []\<rparr>)"
proof -
  have m: "\<not> metaOk (judge sampleWorld busyResponse u)" for u
    by (simp add: judge_def Let_def busyResponse_def seemsHtml_def str_or_empty_def)
  have st: "status busyResponse = 503" "statusText busyResponse = ''Service Unavailable''"
    "headers busyResponse = []" "data busyResponse = Some []"
    "finalUrlOf busyResponse ''https://shop.example/'' = ''https://shop.example/''"
    by (simp_all add: busyResponse_def finalUrlOf_def truthy_def)
  have mr: "MAX_RETRIES sampleWorld = 3" by (simp add: sampleWorld_def)
  have c: "nextStickyCookie [] [] = []" by (simp add: nextStickyCookie_def)
  from retry_exactly_when [where W = sampleWorld and response = busyResponse
      and url = "''https://shop.example/''" and i = 0 and stickyCookie = "[]"
      and lastError = None and ms = 7 and s = "\<lparr>clock = 2, trace = []\<rparr>"]
  have a: "afterResponse sampleWorld ''https://shop.example/'' 0 [] None busyResponse 7
       \<lparr>clock = 2, trace = []\<rparr>
     = (Again [] None, backoffSleep sampleWorld 0 \<lparr>clock = 2, trace = []\<rparr>)"
    by (simp add: Let_def m st mr c)
  from retry_exactly_when [where W = sampleWorld and response = busyResponse
      and url = "''https://shop.example/''" and i = 2 and stickyCookie = "[]"
      and lastError = None and ms = 7 and s = "\<lparr>clock = 2, trace = []\<rparr>"]
  have b: "afterResponse sampleWorld ''https://shop.example/'' 2 [] None busyResponse 7
       \<lparr>clock = 2, trace = []\<rparr>
     = (Return \<lparr>status = 503, statusText = ''Service Unavailable'', headers = [],
                data = Some [], attempt = 3, durationMs = 7,
                finalUrl = ''https://shop.example/''\<rparr>, \<lparr>clock = 2, trace = []\<rparr>)"
    by (simp add: Let_def m st mr)
  from a b show ?thesis by blast
qed

section \<open>Properties of the retry loop\<close>

lemma requests_append [simp]: "requests (xs @ ys) = requests xs + requests ys"
  by (simp add: requests_def)

lemma requests_simps [simp]:
  "requests [] = 0"
  "requests (Attempt i # evs) = requests evs"
  "requests (Request cfg a # evs) = Suc (requests evs)"
  "requests (Sleep d # evs) = requests evs"
  "requests (Resolve u # evs) = requests evs"
  "requests (Browser u # evs) = requests evs"
  "requests (OEmbed u # evs) = requests evs"
  by (simp_all add: requests_def isRequest_def)

lemma attemptBody_fails:
  assumes "newURL W url \<noteq> None" and "\<forall>t. getRandomUserAgent W t \<noteq> None"
    and "\<forall>t cfg. isl (axios W t cfg)"
  shows "\<exists>cfg e. attemptBody W url method customHeaders reqData i stickyCookie lastError s =
           caught W i stickyCookie e
             (s\<lparr>clock := clock s + 2, trace := trace s @ [Attempt i, Request cfg (Inl e)]\<rparr>)"
proof -
  obtain u where u: "newURL W url = Some u" using assms(1) by auto
  obtain ua where ua: "getRandomUserAgent W (clock s) = Some ua" using assms(2) by auto
  obtain hs where hs: "generateHeaders W url (Some ua) = Inr hs"
    by (simp add: generateHeaders_def u Let_def)
  obtain e where e: "axios W (Suc (clock s))
      (buildConfig url method customHeaders reqData stickyCookie hs) = Inl e"
    using assms(3) by (metis isl_def)
  show ?thesis
    by (rule exI [of _ "buildConfig url method customHeaders reqData stickyCookie hs"],
        rule exI [of _ e])
       (simp add: attemptBody_def Let_def ua hs e emit_def tick_def)
qed

lemma retryLoop_all_fail:
  assumes "newURL W url \<noteq> None" and "\<forall>t. getRandomUserAgent W t \<noteq> None"
    and "\<forall>t cfg. isl (axios W t cfg)" and "i < MAX_RETRIES W"
  shows "\<exists>cfg e s'. retryLoop W url method customHeaders reqData i stickyCookie lastError s
            = (Inl (Some e), s')
          \<and> last (trace s') = Request cfg (Inl e)
          \<and> requests (trace s') = requests (trace s) + (MAX_RETRIES W - i)"
  using assms(4)
proof (induction "MAX_RETRIES W - i" arbitrary: i stickyCookie lastError s)
  case 0
  then show ?case by simp
next
  case (Suc n)
  obtain cfg e where body:
    "attemptBody W url method customHeaders reqData i stickyCookie lastError s =
       caught W i stickyCookie e
         (s\<lparr>clock := clock s + 2, trace := trace s @ [Attempt i, Request cfg (Inl e)]\<rparr>)"
    using attemptBody_fails [OF assms(1-3)] by blast
  let ?s2 = "s\<lparr>clock := clock s + 2, trace := trace s @ [Attempt i, Request cfg (Inl e)]\<rparr>"
  show ?case
  proof (cases "int i = int (MAX_RETRIES W) - 1")
    case True
    then have "MAX_RETRIES W - i = 1" by linarith
    with True Suc.prems show ?thesis
      by (subst retryLoop.simps) (simp add: body caught_def)
  next
    case False
    with Suc.prems have lt: "i + 1 < MAX_RETRIES W" by linarith
    from Suc.hyps(2) have n: "n = MAX_RETRIES W - (i + 1)" by simp
    from Suc.hyps(1) [OF n lt, of stickyCookie "Some e" "backoffSleep W i ?s2"]
    obtain cfg' e' s' where rec:
      "retryLoop W url method customHeaders reqData (i + 1) stickyCookie (Some e)
         (backoffSleep W i ?s2) = (Inl (Some e'), s')"
      "last (trace s') = Request cfg' (Inl e')"
      "requests (trace s') = requests (trace (backoffSleep W i ?s2)) + (MAX_RETRIES W - (i + 1))"
      by blast
    have tr: "requests (trace (backoffSleep W i ?s2)) = requests (trace s) + 1"
      by (simp add: backoffSleep_def Let_def emit_def tick_def)
    from False Suc.prems lt rec tr show ?thesis
      by (subst retryLoop.simps) (simp add: body caught_def)
  qed
qed

text \<open>
  C4. When every attempt ends in a transport error (the headers can be generated, that
  is the URL parses and a user agent is picked, and every axios call throws),
  \<^verbatim>\<open>executeWithRetry\<close> performs exactly \<^verbatim>\<open>MAX_RETRIES\<close> requests, and with a positive
  \<^verbatim>\<open>MAX_RETRIES\<close> it then throws the error of the last request, which is the last effect
  of the call.
\<close>

theorem transport_errors_exhaust_retries:
  assumes "newURL W url \<noteq> None" and "\<forall>t. getRandomUserAgent W t \<noteq> None"
    and "\<forall>t cfg. isl (axios W t cfg)"
  shows "requests (trace (snd (executeWithRetry W url method customHeaders reqData s)))
           = requests (trace s) + MAX_RETRIES W
       \<and> (0 < MAX_RETRIES W \<longrightarrow>
            (\<exists>cfg e. fst (executeWithRetry W url method customHeaders reqData s) = Inl (Some e)
               \<and> last (trace (snd (executeWithRetry W url method customHeaders reqData s)))
                   = Request cfg (Inl e)))"
proof (cases "0 < MAX_RETRIES W")
  case True
  from retryLoop_all_fail [OF assms True, of "method" customHeaders reqData "[]" None s]
  show ?thesis by (auto simp: executeWithRetry_def)
next
  case False
  then show ?thesis
    by (simp add: executeWithRetry_def retryLoop.simps)
qed

theorem transport_errors_exhaust_retries_witness:
  "newURL sampleWorld ''https://shop.example/'' \<noteq> None
   \<and> (\<forall>t. getRandomUserAgent sampleWorld t \<noteq> None)
   \<and> (\<forall>t cfg. isl (axios sampleWorld t cfg))
   \<and> 0 < MAX_RETRIES sampleWorld
   \<and> requests (trace (snd (executeWithRetry sampleWorld ''https://shop.example/'' ''GET'' [] None
          \<lparr>clock = 0, trace = []\<rparr>))) = 3
   \<and> fst (executeWithRetry sampleWorld ''https://shop.example/'' ''GET'' [] None
          \<lparr>clock = 0, trace = []\<rparr>) = Inl (Some (Exn ''ECONNRESET''))"
proof -
  have a: "newURL sampleWorld ''https://shop.example/'' \<noteq> None"
    by (simp add: sampleWorld_def)
  have b: "\<forall>t. getRandomUserAgent sampleWorld t \<noteq> None"
    by (simp add: sampleWorld_def getRandomUserAgent_def)
  have c: "\<forall>t cfg. isl (axios sampleWorld t cfg)"
    by (simp add: sampleWorld_def)
  have d: "0 < MAX_RETRIES sampleWorld" "MAX_RETRIES sampleWorld = 3"
    by (simp_all add: sampleWorld_def)
  have ax: "\<And>t cfg. axios sampleWorld t cfg = Inl (Exn ''ECONNRESET'')"
    by (simp add: sampleWorld_def)
  from transport_errors_exhaust_retries [OF a b c, of "''GET''" "[]" None "\<lparr>clock = 0, trace = []\<rparr>"] d
  obtain cfg e where r:
    "requests (trace (snd (executeWithRetry sampleWorld ''https://shop.example/'' ''GET'' [] None
          \<lparr>clock = 0, trace = []\<rparr>))) = 3"
    "fst (executeWithRetry sampleWorld ''https://shop.example/'' ''GET'' [] None
          \<lparr>clock = 0, trace = []\<rparr>) = Inl (Some e)"
    "last (trace (snd (executeWithRetry sampleWorld ''https://shop.example/'' ''GET'' [] None
          \<lparr>clock = 0, trace = []\<rparr>))) = Request cfg (Inl e)"
    by auto
  have "fst (executeWithRetry sampleWorld ''https://shop.example/'' ''GET'' [] None
          \<lparr>clock = 0, trace = []\<rparr>) = Inl (Some (Exn ''ECONNRESET''))"
    by (simp add: executeWithRetry_def retryLoop.simps attemptBody_def Let_def ax caught_def d
        sampleWorld_def getRandomUserAgent_def generateHeaders_def emit_def tick_def
        backoffSleep_def)
  with a b c d r show ?thesis by blast
qed

section \<open>Properties of the quality loop\<close>











section \<open>Properties of the caller-facing status\<close>

lemma clientSuccess_eq:
  "clientSuccess W v =
     ((((200 \<le> status (effectiveResult v) \<and> status (effectiveResult v) < 300)
         \<and> \<not> looksLikeBotOrBlockedHtml W (str_or_empty (data (effectiveResult v))) (effectiveUrl v))
        \<or> hasUsefulMeta v)
      \<and> \<not> str_includes (toLowerCase (titleOf v)) ''error'')"
  by (auto simp: clientSuccess_def looksError_def Let_def)

lemma respond_eq:
  "\<exists>d. respond W url method v =
     Json (if clientSuccess W v then 200 else status (effectiveResult v)) (clientSuccess W v) d
       (totalAttempt v)
     \<and> rd_status d = status (effectiveResult v) \<and> rd_attempt d = totalAttempt v
     \<and> rd_metadata d = v_metadata v"
  by (simp add: respond_def Let_def)

lemma pipeline_Json:
  assumes "pipeline W url method customHeaders reqData s = (Some (Json httpStatus success d n), s')"
  shows "\<exists>v. fst (qualityLoop W (fst (resolveTarget W url s)) method customHeaders reqData 0 None
                  (snd (resolveTarget W url s))) = Inr (Some v)
             \<and> respond W url method v = Json httpStatus success d n"
  using assms
  by (auto simp: pipeline_def split: prod.splits sum.splits option.splits exn.splits)

lemma article_world:
  "MAX_RETRIES articleWorld = 1"
  "extractMetadata articleWorld = (\<lambda>b u. Inr articleMeta)"
  "hasUsefulMetadata articleWorld = anyField"
  "looksLikeBotOrBlockedHtml articleWorld = tokenHeuristic"
  "isAmazonUrl articleWorld = (\<lambda>u. False)"
  "newURL articleWorld = (\<lambda>s. if s = ''https://shop.example/''
                     then Some \<lparr>protocol = ''https:'', hostname = ''shop.example'',
                                pathname = ''/'', href = ''https://shop.example/''\<rparr>
                     else None)"
  "axios articleWorld = (\<lambda>t c. Inr (\<lparr>status = 200, statusText = ''OK'',
                               headers = [(''content-type'', HString ''text/html'')],
                               data = Some articlePage, responseUrl = None,
                               currentUrl = None\<rparr>, 30))"
  "USER_AGENTS articleWorld = [''Mozilla/5.0 (Windows NT 10.0; Win64; x64) Chrome/120.0.0.0'']"
  "random articleWorld = (\<lambda>t. 0)"
  by (simp_all add: articleWorld_def sampleWorld_def)

lemma article_executeWithRetry:
  "executeWithRetry articleWorld ''https://shop.example/'' ''GET'' [] None s =
     (Inr (effectiveResult articleVars),
      emit (Request (buildConfig ''https://shop.example/'' ''GET'' [] None []
                       (projr (generateHeaders articleWorld ''https://shop.example/''
                                 (getRandomUserAgent articleWorld (clock s)))))
              (Inr (\<lparr>status = 200, statusText = ''OK'',
                     headers = [(''content-type'', HString ''text/html'')],
                     data = Some articlePage, responseUrl = None, currentUrl = None\<rparr>, 30)))
        (tick (tick (emit (Attempt 0) s))))"
proof -
  have hs: "generateHeaders articleWorld ''https://shop.example/''
        (getRandomUserAgent articleWorld (clock s))
      = Inr (projr (generateHeaders articleWorld ''https://shop.example/''
                                 (getRandomUserAgent articleWorld (clock s))))"
    by (simp add: generateHeaders_def article_world getRandomUserAgent_def Let_def)
  have ax: "\<And>t c. axios articleWorld t c = Inr (\<lparr>status = 200, statusText = ''OK'',
                     headers = [(''content-type'', HString ''text/html'')],
                     data = Some articlePage, responseUrl = None, currentUrl = None\<rparr>, 30)"
    by (simp add: article_world)
  show ?thesis
    unfolding executeWithRetry_def
    by (subst retryLoop.simps)
       (simp add: article_world attemptBody_response [OF hs ax] afterResponse_cases Let_def
          articleVars_def finalUrlOf_def truthy_def)
qed

lemma article_qualityBody:
  "fst (qualityBody articleWorld ''https://shop.example/'' ''GET'' [] None 0 s) = QBreak articleVars"
proof -
  have html: "seemsHtml (effectiveResult articleVars) articlePage"
    by (simp add: seemsHtml_def isHtmlContent_def articleVars_def articlePage_def)
  have nb: "\<not> needsBrowserFetch ''https://shop.example/''"
    by (simp add: needsBrowserFetch_def toLowerCase_def lowerChar_def)
  have np: "\<not> needsPlatformFallback ''https://shop.example/'' m" if "m \<noteq> None" for m
    using that
    by (cases m) (simp_all add: needsPlatformFallback_def isYouTubeUrl_def isSpotifyUrl_def
        toLowerCase_def lowerChar_def Let_def)
  have fields: "finalUrl (effectiveResult articleVars) = ''https://shop.example/''"
    "attempt (effectiveResult articleVars) = 1"
    "data (effectiveResult articleVars) = Some articlePage"
    by (simp_all add: articleVars_def)
  have any: "anyField articleMeta" "anyField (faviconBackfill articleWorld u articleMeta)"
    for u
    by (simp_all add: anyField_def articleMeta_def truthy_def faviconBackfill_def
        split: option.splits)
  have fav: "faviconBackfill articleWorld ''https://shop.example/'' articleMeta
      = articleMeta\<lparr>images := \<lparr>logo = None, ogImage = None,
                 favicon = Some ''https://shop.example/favicon.ico'',
                 appleTouchIcon = None\<rparr>\<rparr>"
    by (simp add: faviconBackfill_def article_world articleMeta_def truthy_def)
  show ?thesis
    by (simp add: qualityBody_def article_executeWithRetry Let_def fields str_or_empty_def html
        htmlRound_def article_world expectedAmazon_def isAmazonProductOk_def nb np
        platformStep_def any)
       (simp add: articleVars_def fav)
qed

lemma article_qualityLoop:
  "fst (qualityLoop articleWorld ''https://shop.example/'' ''GET'' [] None 0 None s)
     = Inr (Some articleVars)"
  using article_qualityBody [of s]
  by (subst qualityLoop.simps)
     (simp add: qualityAttempts_def case_prod_beta split: qoutcome.splits)

lemma article_respond:
  "respond articleWorld ''https://shop.example/'' ''GET'' articleVars = Json 200 False articleData 1"
  by (simp add: respond_def Let_def clientSuccess_eq articleVars_def articleData_def
      article_world titleOf_def articleMeta_def str_or_empty_def toLowerCase_def lowerChar_def
      toUpperCase_def upperChar_def)

lemma article_executeRequest:
  "fst (executeRequest articleWorld articleRequest \<lparr>clock = 0, trace = []\<rparr>)
     = Some (Json 200 False articleData 1)"
proof -
  have rt: "resolveTarget articleWorld ''https://shop.example/'' s = (''https://shop.example/'', s)"
    for s
    by (simp add: resolveTarget_def article_world shorteners_def toLowerCase_def lowerChar_def)
  show ?thesis
    using article_qualityLoop [of "\<lparr>clock = 0, trace = []\<rparr>"]
    by (simp add: executeRequest_def articleRequest_def truthy_def toUpperCase_def upperChar_def
        validMethods_def str_or_empty_def pipeline_def rt case_prod_beta article_respond)
qed

text \<open>
  C2 as stated fails: the article is fetched with status 200 and its title and
  description are extracted, so by the claim the success flag is true; the title has the
  word \<^verbatim>\<open>error\<close> in it and the reply says \<^verbatim>\<open>success: false\<close> (with HTTP status 200, the
  upstream status).
\<close>

theorem useful_metadata_reported_as_failure:
  "fst (executeRequest articleWorld articleRequest \<lparr>clock = 0, trace = []\<rparr>)
     = Some (Json 200 False articleData 1)
   \<and> fst (qualityLoop articleWorld ''https://shop.example/'' ''GET'' [] None 0 None
           \<lparr>clock = 0, trace = []\<rparr>) = Inr (Some articleVars)
   \<and> 200 \<le> status (effectiveResult articleVars) \<and> status (effectiveResult articleVars) < 300
   \<and> hasUsefulMeta articleVars"
proof -
  have b: "hasUsefulMeta articleVars"
    by (simp add: hasUsefulMeta_def articleVars_def isHtmlContent_def)
  have c: "200 \<le> status (effectiveResult articleVars) \<and> status (effectiveResult articleVars) < 300"
    by (simp add: articleVars_def)
  from article_executeRequest b c article_qualityLoop [of "\<lparr>clock = 0, trace = []\<rparr>"]
  show ?thesis by blast
qed

text \<open>
  C2, amended. For every run of \<^verbatim>\<open>executeRequest\<close> that sends the success-shaped reply,
  with \<open>v\<close> the variables the quality loop left behind: the success flag is true exactly
  when the title of the metadata does not contain \<^verbatim>\<open>error\<close> (in any case) and either the
  upstream status is in \<open>[200, 300)\<close> and the bot-block heuristic does not fire on the body,
  or useful metadata was obtained (a metadata field is non-empty or the content type is
  HTML); the HTTP status of the reply is 200 when the flag is true and the upstream
  status of the final result otherwise.
\<close>

theorem success_flag:
  assumes "executeRequest W req s = (Some (Json httpStatus success d n), s')"
  shows "\<exists>v. fst (qualityLoop W (fst (resolveTarget W (str_or_empty (in_url req)) s))
                 (case in_method req of None \<Rightarrow> ''GET'' | Some m \<Rightarrow> m)
                 (case in_headers req of None \<Rightarrow> [] | Some h \<Rightarrow> h)
                 (in_data req) 0 None
                 (snd (resolveTarget W (str_or_empty (in_url req)) s))) = Inr (Some v)
     \<and> success =
         ((((200 \<le> status (effectiveResult v) \<and> status (effectiveResult v) < 300)
             \<and> \<not> looksLikeBotOrBlockedHtml W (str_or_empty (data (effectiveResult v)))
                   (effectiveUrl v))
            \<or> hasUsefulMeta v)
          \<and> \<not> str_includes (toLowerCase (titleOf v)) ''error'')
     \<and> httpStatus = (if success then 200 else status (effectiveResult v))
     \<and> rd_status d = status (effectiveResult v)
     \<and> n = totalAttempt v"
proof -
  from assms have p: "pipeline W (str_or_empty (in_url req))
      (case in_method req of None \<Rightarrow> ''GET'' | Some m \<Rightarrow> m)
      (case in_headers req of None \<Rightarrow> [] | Some h \<Rightarrow> h) (in_data req) s
       = (Some (Json httpStatus success d n), s')"
    by (simp add: executeRequest_def Let_def split: if_splits)
  from pipeline_Json [OF p] obtain v where v:
    "fst (qualityLoop W (fst (resolveTarget W (str_or_empty (in_url req)) s))
                 (case in_method req of None \<Rightarrow> ''GET'' | Some m \<Rightarrow> m)
                 (case in_headers req of None \<Rightarrow> [] | Some h \<Rightarrow> h)
                 (in_data req) 0 None
                 (snd (resolveTarget W (str_or_empty (in_url req)) s))) = Inr (Some v)"
    "respond W (str_or_empty (in_url req)) (case in_method req of None \<Rightarrow> ''GET'' | Some m \<Rightarrow> m) v
       = Json httpStatus success d n"
    by blast
  from respond_eq [of W "str_or_empty (in_url req)"
      "case in_method req of None \<Rightarrow> ''GET'' | Some m \<Rightarrow> m" v] v(2)
  have "success = clientSuccess W v"
    "httpStatus = (if clientSuccess W v then 200 else status (effectiveResult v))"
    "rd_status d = status (effectiveResult v)" "n = totalAttempt v"
    by auto
  with v(1) show ?thesis by (auto simp: clientSuccess_eq)
qed


theorem success_flag_witness:
  "executeRequest articleWorld articleRequest \<lparr>clock = 0, trace = []\<rparr>
     = (Some (Json 200 False articleData 1),
        snd (executeRequest articleWorld articleRequest \<lparr>clock = 0, trace = []\<rparr>))
   \<and> rd_status articleData = 200
   \<and> str_includes (toLowerCase (titleOf articleVars)) ''error''"
proof -
  have a: "executeRequest articleWorld articleRequest \<lparr>clock = 0, trace = []\<rparr>
     = (Some (Json 200 False articleData 1),
        snd (executeRequest articleWorld articleRequest \<lparr>clock = 0, trace = []\<rparr>))"
    using article_executeRequest
    by (metis prod.collapse)
  have t: "str_includes (toLowerCase (titleOf articleVars)) ''error''"
    by (simp add: titleOf_def articleVars_def articleMeta_def str_or_empty_def toLowerCase_def
        lowerChar_def)
  from success_flag [OF a] have "rd_status articleData = 200" 
    using article_qualityLoop [of "\<lparr>clock = 0, trace = []\<rparr>"]
    by (auto split: if_splits)
  with a t show ?thesis by blast
qed

section \<open>Properties of the sticky cookie\<close>

lemma map_of_spread:
  "map_of (spread a b) k = (case map_of (rev b) k of None \<Rightarrow> map_of a k | Some v \<Rightarrow> Some v)"
  unfolding spread_def
proof (induction b arbitrary: a)
  case Nil
  then show ?case by simp
next
  case (Cons x b)
  obtain k' v' where x: "x = (k', v')" by (cases x)
  show ?case
    by (simp add: Cons.IH x update_conv' map_add_def split: option.splits)
qed

lemma generateHeaders_no_cookie:
  assumes "generateHeaders W url ua = Inr hs"
  shows "map_of hs ''Cookie'' = None"
  using assms
  by (auto simp: generateHeaders_def Let_def split: option.splits if_splits)

lemma cookie_of_config:
  assumes "map_of hs ''Cookie'' = None"
  shows "map_of (cfg_headers (buildConfig url method customHeaders reqData c hs)) ''Cookie''
           = expectedCookie customHeaders c"
  using assms
  by (simp add: buildConfig_def expectedCookie_def Let_def map_of_spread split: option.splits)

lemma stickyReplay_append:
  "stickyReplay c j (xs @ ys) =
     (case stickyReplay c j xs of None \<Rightarrow> None | Some j' \<Rightarrow> stickyReplay c j' ys)"
  by (induction c j xs rule: stickyReplay.induct) simp_all

lemma stickyReplay_quiet:
  "quiet evs \<Longrightarrow> stickyReplay c j evs = Some j"
  by (induction c j evs rule: stickyReplay.induct) (simp_all add: quiet_def)

lemma quiet_simps [simp]:
  "quiet []" "quiet (Sleep d # evs) = quiet evs" "quiet (Resolve u # evs) = quiet evs"
  "quiet (Browser u # evs) = quiet evs" "quiet (OEmbed u # evs) = quiet evs"
  "quiet (xs @ ys) = (quiet xs \<and> quiet ys)"
  by (simp_all add: quiet_def)


lemma quietly_replay:
  assumes "trace s' = trace s @ evs" and "quiet evs"
  shows "stickyReplay c j (trace s') = stickyReplay c j (trace s)"
  using assms by (simp add: stickyReplay_append stickyReplay_quiet split: option.splits)

lemma replay_step:
  "stickyReplay c [] tr = Some j \<Longrightarrow> stickyReplay c [] (tr @ evs) = stickyReplay c j evs"
  by (simp add: stickyReplay_append)

lemma backoffSleep_trace:
  "trace (backoffSleep W i s) = trace s @ [Sleep (calculateBackoffDelay i (random W (clock s)))]"
  by (simp add: backoffSleep_def Let_def emit_def tick_def)

lemma caught_replay:
  assumes "stickyReplay c [] (trace s) = Some sticky"
    and "caught W i sticky e s = (out, s')"
  shows "\<exists>j'. stickyReplay c [] (trace s') = Some j'
           \<and> (\<forall>c' e'. out = Again c' e' \<longrightarrow> j' = c')"
  using assms
  by (auto simp: caught_def backoffSleep_trace stickyReplay_append split: if_splits)

lemma afterResponse_replay:
  assumes "stickyReplay c [] (trace s) = Some (nextStickyCookie (headers response) sticky)"
    and "afterResponse W url i sticky lastError response ms s = (out, s')"
  shows "\<exists>j'. stickyReplay c [] (trace s') = Some j'
           \<and> (\<forall>c' e'. out = Again c' e' \<longrightarrow> j' = c')"
  using assms
  by (auto simp: afterResponse_def Let_def backoffSleep_trace stickyReplay_append
      split: if_splits)

lemma attemptBody_replay:
  assumes inv: "stickyReplay c [] (trace s) = Some j0"
    and zero: "i = 0 \<longrightarrow> sticky = []"
    and later: "i \<noteq> 0 \<longrightarrow> j0 = sticky"
    and body: "attemptBody W url method c reqData i sticky lastError s = (out, s')"
  shows "\<exists>j'. stickyReplay c [] (trace s') = Some j'
           \<and> (\<forall>c' e'. out = Again c' e' \<longrightarrow> j' = c')"
proof -
  let ?s1 = "tick (emit (Attempt i) s)"
  have "trace ?s1 = trace s @ [Attempt i]"
    by (simp add: emit_def tick_def)
  then have "stickyReplay c [] (trace ?s1) = stickyReplay c j0 [Attempt i]"
    by (simp only: replay_step [OF inv])
  then have s1: "stickyReplay c [] (trace ?s1) = Some sticky"
    using zero later by simp
  show ?thesis
  proof (cases "generateHeaders W url (getRandomUserAgent W (clock s))")
    case (Inl e)
    with body have "caught W i sticky e ?s1 = (out, s')"
      by (simp add: attemptBody_def Let_def emit_def tick_def)
    from caught_replay [OF s1 this] show ?thesis .
  next
    case (Inr hs)
    let ?cfg = "buildConfig url method c reqData sticky hs"
    let ?ans = "axios W (clock ?s1) ?cfg"
    let ?s2 = "emit (Request ?cfg ?ans) (tick ?s1)"
    have ck: "map_of (cfg_headers ?cfg) ''Cookie'' = expectedCookie c sticky"
      by (rule cookie_of_config [OF generateHeaders_no_cookie [OF Inr]])
    show ?thesis
    proof (cases ?ans)
      case (Inl e)
      have "trace ?s2 = trace ?s1 @ [Request ?cfg ?ans]"
        by (simp add: emit_def tick_def)
      then have "stickyReplay c [] (trace ?s2) = stickyReplay c sticky [Request ?cfg ?ans]"
        by (simp only: replay_step [OF s1])
      then have s2: "stickyReplay c [] (trace ?s2) = Some sticky"
        using ck Inl by simp
      from body Inr Inl have "caught W i sticky e ?s2 = (out, s')"
        by (simp add: attemptBody_def Let_def emit_def tick_def)
      from caught_replay [OF s2 this] show ?thesis .
    next
      case (Inr rm)
      obtain response ms where rm: "rm = (response, ms)" by (cases rm)
      have "trace ?s2 = trace ?s1 @ [Request ?cfg ?ans]"
        by (simp add: emit_def tick_def)
      then have "stickyReplay c [] (trace ?s2) = stickyReplay c sticky [Request ?cfg ?ans]"
        by (simp only: replay_step [OF s1])
      then have s2: "stickyReplay c [] (trace ?s2)
                  = Some (nextStickyCookie (headers response) sticky)"
        using ck Inr rm by simp
      from body \<open>generateHeaders W url (getRandomUserAgent W (clock s)) = Inr hs\<close> Inr rm
      have "afterResponse W url i sticky lastError response ms ?s2 = (out, s')"
        by (simp add: attemptBody_def Let_def emit_def tick_def)
      from afterResponse_replay [OF s2 this] show ?thesis .
    qed
  qed
qed

lemma retryLoop_replay:
  assumes "stickyReplay c [] (trace s) = Some j0"
    and "i = 0 \<longrightarrow> sticky = []" and "i \<noteq> 0 \<longrightarrow> j0 = sticky"
  shows "\<exists>j'. stickyReplay c []
           (trace (snd (retryLoop W url method c reqData i sticky lastError s))) = Some j'"
  using assms
proof (induction "MAX_RETRIES W - i" arbitrary: i sticky lastError s j0)
  case 0
  then show ?case by (simp add: retryLoop.simps)
next
  case (Suc n)
  from Suc.hyps(2) have lt: "i < MAX_RETRIES W" by simp
  obtain out s1 where body:
    "attemptBody W url method c reqData i sticky lastError s = (out, s1)"
    by (cases "attemptBody W url method c reqData i sticky lastError s")
  from attemptBody_replay [OF Suc.prems(1) Suc.prems(2) Suc.prems(3) body]
  obtain j' where j': "stickyReplay c [] (trace s1) = Some j'"
    "\<forall>c' e'. out = Again c' e' \<longrightarrow> j' = c'" by blast
  show ?case
  proof (cases out)
    case (Return r)
    with lt body j' show ?thesis by (simp add: retryLoop.simps)
  next
    case (Throw e)
    with lt body j' show ?thesis by (simp add: retryLoop.simps)
  next
    case (Again c' e')
    with j' have eq: "j' = c'" by simp
    from Suc.hyps(2) have n: "n = MAX_RETRIES W - (i + 1)" by simp
    have "\<exists>j''. stickyReplay c []
           (trace (snd (retryLoop W url method c reqData (i + 1) c' e' s1))) = Some j''"
      by (rule Suc.hyps(1) [OF n j'(1)]) (simp_all add: eq)
    with lt body Again show ?thesis by (simp add: retryLoop.simps)
  qed
qed

lemma executeWithRetry_replay:
  assumes "stickyReplay c [] (trace s) = Some j0"
  shows "\<exists>j'. stickyReplay c []
           (trace (snd (executeWithRetry W url method c reqData s))) = Some j'"
  unfolding executeWithRetry_def
  by (rule retryLoop_replay [OF assms]) simp_all


lemma quietly_refl [simp]: "quietly s s"
  by (simp add: quietly_def)

lemma quietly_trans: "quietly s s1 \<Longrightarrow> quietly s1 s2 \<Longrightarrow> quietly s s2"
  by (auto simp: quietly_def)

lemma quietly_replay':
  "quietly s s' \<Longrightarrow> stickyReplay c j (trace s') = stickyReplay c j (trace s)"
  unfolding quietly_def using quietly_replay by blast

lemma quietly_backoffSleep [simp]: "quietly s (backoffSleep W i s)"
  by (simp add: quietly_def backoffSleep_trace)

lemma quietly_resolveTarget: "quietly s (snd (resolveTarget W url s))"
  by (simp add: resolveTarget_def Let_def quietly_def emit_def tick_def
      split: option.splits sum.splits)

lemma quietly_fetchHtmlWithBrowser: "quietly s (snd (fetchHtmlWithBrowser W url s))"
  by (simp add: fetchHtmlWithBrowser_def quietly_def emit_def tick_def split: option.splits)

lemma quietly_oembedGet: "quietly s (snd (oembedGet W u s))"
  by (simp add: oembedGet_def Let_def quietly_def emit_def tick_def)

lemma quietly_fetchPlatformMetadata: "quietly s (snd (fetchPlatformMetadata W url s))"
proof -
  have q: "quietly s (snd (case oembedGet W u s of
            (Inl error, s') \<Rightarrow> (None, s') | (Inr d, s') \<Rightarrow> (Some (f d), s')))" for u f
    using quietly_oembedGet [of s W u]
    by (cases "oembedGet W u s") (auto split: sum.splits)
  show ?thesis
    by (simp add: fetchPlatformMetadata_def q split: option.splits)
qed

lemma quietly_browserStep: "quietly s (snd (browserStep W url res m s))"
  using quietly_fetchHtmlWithBrowser [of s W url]
  by (cases "fetchHtmlWithBrowser W url s")
     (auto simp: browserStep_def Let_def split: option.splits sum.splits)

lemma quietly_platformStep: "quietly s (snd (platformStep W url m s))"
  using quietly_fetchPlatformMetadata [of s W url]
  by (cases "fetchPlatformMetadata W url s")
     (auto simp: platformStep_def split: option.splits)

lemma quietly_htmlRound: "quietly s (snd (htmlRound W q ex res url body n s))"
proof (cases "extractMetadata W body url")
  case (Inl e)
  then show ?thesis by (simp add: htmlRound_def)
next
  case (Inr m)
  define b where "b = (if (\<not> hasUsefulMetadata W m \<and> looksLikeBotOrBlockedHtml W body url)
        \<or> (\<not> hasUsefulMetadata W m \<and> needsBrowserFetch url)
        \<or> (ex \<and> \<not> isAmazonProductOk ex m body)
      then browserStep W url res m s else (Inr (res, m), s))"
  have qb: "quietly s (snd b)"
    using quietly_browserStep [of s W url res m] by (simp add: b_def)
  obtain x s1 where b: "b = (x, s1)" by (cases b)
  with qb have q1: "quietly s s1" by simp
  show ?thesis
  proof (cases x)
    case (Inl e)
    with Inr b q1 show ?thesis
      by (simp add: htmlRound_def Let_def b_def [symmetric])
  next
    case (Inr rm)
    obtain res1 m1 where rm: "rm = (res1, m1)" by (cases rm)
    obtain m2 s2 where p: "platformStep W url m1 s1 = (m2, s2)"
      by (cases "platformStep W url m1 s1")
    with quietly_platformStep [of s1 W url m1] have q2: "quietly s1 s2" by simp
    from q1 q2 have q12: "quietly s s2" by (rule quietly_trans)
    have q3: "quietly s (backoffSleep W q s2)"
      by (rule quietly_trans [OF q12]) simp
    from \<open>extractMetadata W body url = Inr m\<close> b Inr rm p q12 q3 show ?thesis
      by (simp add: htmlRound_def Let_def b_def [symmetric])
  qed
qed

lemma qualityBody_replay:
  assumes "stickyReplay c [] (trace s) = Some j0"
  shows "\<exists>j'. stickyReplay c []
           (trace (snd (qualityBody W targetUrl method c reqData q s))) = Some j'"
proof -
  obtain x s1 where ex: "executeWithRetry W targetUrl method c reqData s = (x, s1)"
    by (cases "executeWithRetry W targetUrl method c reqData s")
  with executeWithRetry_replay [OF assms, of W targetUrl "method" reqData]
  obtain j1 where j1: "stickyReplay c [] (trace s1) = Some j1" by auto
  show ?thesis
  proof (cases x)
    case (Inl e)
    with ex j1 show ?thesis by (simp add: qualityBody_def)
  next
    case (Inr res)
    have "stickyReplay c [] (trace (snd (htmlRound W q ex' res url body n s1))) = Some j1"
      for ex' url body n
      using quietly_replay' [OF quietly_htmlRound [of s1 W q ex' res url body n], of c "[]"] j1
      by simp
    with ex Inr j1 show ?thesis by (simp add: qualityBody_def Let_def)
  qed
qed

lemma qualityLoop_replay:
  assumes "stickyReplay c [] (trace s) = Some j0"
  shows "\<exists>j'. stickyReplay c []
           (trace (snd (qualityLoop W targetUrl method c reqData q prev s))) = Some j'"
  using assms
proof (induction "qualityAttempts - q" arbitrary: q prev s j0)
  case 0
  then show ?case by (simp add: qualityLoop.simps)
next
  case (Suc n)
  from Suc.hyps(2) have lt: "q < qualityAttempts" by simp
  obtain out s1 where body: "qualityBody W targetUrl method c reqData q s = (out, s1)"
    by (cases "qualityBody W targetUrl method c reqData q s")
  with qualityBody_replay [OF Suc.prems, of W targetUrl "method" reqData q]
  obtain j1 where j1: "stickyReplay c [] (trace s1) = Some j1" by auto
  show ?case
  proof (cases out)
    case (QThrow e)
    with lt body j1 show ?thesis by (simp add: qualityLoop.simps)
  next
    case (QBreak v)
    with lt body j1 show ?thesis by (simp add: qualityLoop.simps)
  next
    case (QNext v)
    from Suc.hyps(2) have n: "n = qualityAttempts - (q + 1)" by simp
    from Suc.hyps(1) [OF n j1, of "Some v"] lt body QNext show ?thesis
      by (simp add: qualityLoop.simps)
  qed
qed

lemma pipeline_replay:
  assumes "stickyReplay c [] (trace s) = Some j0"
  shows "\<exists>j'. stickyReplay c [] (trace (snd (pipeline W url method c reqData s))) = Some j'"
proof -
  obtain targetUrl s1 where rt: "resolveTarget W url s = (targetUrl, s1)"
    by (cases "resolveTarget W url s")
  with quietly_replay' [OF quietly_resolveTarget [of s W url], of c "[]"] assms
  have j1: "stickyReplay c [] (trace s1) = Some j0" by simp
  obtain x s2 where ql: "qualityLoop W targetUrl method c reqData 0 None s1 = (x, s2)"
    by (cases "qualityLoop W targetUrl method c reqData 0 None s1")
  with qualityLoop_replay [OF j1, of W targetUrl "method" reqData 0 None]
  obtain j2 where j2: "stickyReplay c [] (trace s2) = Some j2" by auto
  from rt ql j2 show ?thesis
    by (auto simp: pipeline_def split: sum.splits option.splits exn.splits)
qed

text \<open>
  C10. In every call of \<^verbatim>\<open>executeRequest\<close>, in every environment, the trace passes the
  replay with a jar that is emptied at the start of every invocation of
  \<^verbatim>\<open>executeWithRetry\<close>: the first request of each quality attempt carries no \<^verbatim>\<open>Cookie\<close>
  header but the caller's own, and every later request of that quality attempt carries
  the pairs of the latest \<^verbatim>\<open>Set-Cookie\<close> received in the same quality attempt (or, if none
  was received, the caller's own header); what an earlier quality attempt captured is
  never sent.
\<close>

theorem sticky_cookie_scoped_to_one_invocation:
  "stickyReplay (case in_headers req of None \<Rightarrow> [] | Some h \<Rightarrow> h) []
     (trace (snd (executeRequest W req \<lparr>clock = t, trace = []\<rparr>))) \<noteq> None"
proof -
  have "stickyReplay c [] (trace \<lparr>clock = t, trace = []\<rparr>) = Some []" for c
    by simp
  from pipeline_replay [OF this] show ?thesis
    by (auto simp: executeRequest_def Let_def)
qed

end
